theory Spec2Isabelle
  imports Complex_Main "HOL-Library.Monad_Syntax"
begin

section \<open>The dose-response notebook\<close>

text \<open>
  The repository is one notebook, \<^verbatim>\<open>notebooks/dose-response-activation.ipynb\<close>. Its cells
  build three concentration grids with numpy, push them through the function
  \<^verbatim>\<open>dose_response\<close>, add Gaussian noise, assemble a pandas DataFrame and hand three PyMC3
  models to \<^verbatim>\<open>pm.sample\<close>.

  The arrays, the frame and the shape of the curve's expression are modelled with Python
  floats read as mathematical reals; there an operation that would leave the reals (a
  division by zero) is the value \<open>None\<close>, as is every raised exception. What the
  expression returns at one x-value once every operation rounds is modelled separately, in
  IEEE 754 binary64 with its infinities and nan (\<open>dose_response_f64\<close>).
\<close>

subsection \<open>numpy arrays\<close>

text \<open>An n-dimensional array: its shape and its elements in row-major (C) order.\<close>

record ndarray =
  shape :: "nat list"
  data :: "real list"

definition wf_array :: "ndarray \<Rightarrow> bool" where
  "wf_array a = (length (data a) = prod_list (shape a))"

text \<open>
  A Python float seen by a ufunc is a zero-dimensional array; \<^verbatim>\<open>item\<close> reads the one
  element of an array back and raises ValueError on an array of any other size.
\<close>

definition scalar :: "real \<Rightarrow> ndarray" where
  "scalar v = \<lparr>shape = [], data = [v]\<rparr>"

definition item :: "ndarray \<Rightarrow> real option" where
  "item a = (case data a of [v] \<Rightarrow> Some v | _ \<Rightarrow> None)"

text \<open>
  Arithmetic between a Python scalar and an array broadcasts the scalar over every element
  and keeps the shape: \<^verbatim>\<open>c - x\<close>, \<^verbatim>\<open>s * x\<close>, \<^verbatim>\<open>np.exp(x)\<close>, \<^verbatim>\<open>c + x\<close>.
\<close>

definition scalar_rsub :: "real \<Rightarrow> ndarray \<Rightarrow> ndarray" where
  "scalar_rsub c x = \<lparr>shape = shape x, data = map (\<lambda>v. c - v) (data x)\<rparr>"

definition scalar_mul :: "real \<Rightarrow> ndarray \<Rightarrow> ndarray" where
  "scalar_mul c x = \<lparr>shape = shape x, data = map (\<lambda>v. c * v) (data x)\<rparr>"

definition np_exp :: "ndarray \<Rightarrow> ndarray" where
  "np_exp x = \<lparr>shape = shape x, data = map exp (data x)\<rparr>"

definition scalar_add :: "real \<Rightarrow> ndarray \<Rightarrow> ndarray" where
  "scalar_add c x = \<lparr>shape = shape x, data = map (\<lambda>v. c + v) (data x)\<rparr>"

text \<open>
  \<^verbatim>\<open>c / x\<close>: a zero divisor gives inf or nan in numpy and ZeroDivisionError on Python
  floats; neither is a real number, so the quotient is \<open>None\<close> then.
\<close>

definition scalar_rdiv :: "real \<Rightarrow> ndarray \<Rightarrow> ndarray option" where
  "scalar_rdiv c x =
     (if list_ex (\<lambda>v. v = 0) (data x) then None
      else Some \<lparr>shape = shape x, data = map (\<lambda>v. c / v) (data x)\<rparr>)"

subsection \<open>The curve\<close>

text \<open>
  \<^verbatim>\<open>
  def dose_response(x, lower: float, upper: float, slope: float, c50: float):
      return lower + (upper - lower) / (1 + np.exp(slope * (c50 - x)))
  \<close>
  The divisor is named so that it can be spoken about; \<open>dose_response\<close> is the source's
  expression, evaluated inside out.
\<close>

definition denominator :: "ndarray \<Rightarrow> real \<Rightarrow> real \<Rightarrow> ndarray" where
  "denominator x slope c50 = scalar_add 1 (np_exp (scalar_mul slope (scalar_rsub c50 x)))"

definition dose_response :: "ndarray \<Rightarrow> real \<Rightarrow> real \<Rightarrow> real \<Rightarrow> real \<Rightarrow> ndarray option" where
  "dose_response x lower upper slope c50 =
     map_option (scalar_add lower) (scalar_rdiv (upper - lower) (denominator x slope c50))"

text \<open>
  The value of the expression at one x-value in exact arithmetic, no operation rounding.
  The float64 evaluation, \<open>dose_response_f64\<close> below, approximates it.
\<close>

definition dose_response_at :: "real \<Rightarrow> real \<Rightarrow> real \<Rightarrow> real \<Rightarrow> real \<Rightarrow> real option" where
  "dose_response_at x lower upper slope c50 =
     Option.bind (dose_response (scalar x) lower upper slope c50) item"

subsection \<open>Building the grids\<close>

text \<open>
  \<^verbatim>\<open>np.linspace(start, stop, num)\<close> with the default \<^verbatim>\<open>endpoint=True\<close>: numpy computes
  \<^verbatim>\<open>arange(0, num) * step + start\<close> with \<^verbatim>\<open>step = (stop - start) / (num - 1)\<close> (the
  plain difference when \<^verbatim>\<open>num - 1\<close> is zero) and then overwrites the last element with
  \<^verbatim>\<open>stop\<close> when \<^verbatim>\<open>num > 1\<close>.
\<close>

definition linspace :: "real \<Rightarrow> real \<Rightarrow> nat \<Rightarrow> ndarray" where
  "linspace start stop num =
     (let dv = num - 1;
          delta = stop - start;
          step = (if 0 < dv then delta / real dv else delta);
          y = map (\<lambda>i. real i * step + start) [0..<num]
      in \<lparr>shape = [num], data = (if 1 < num then y[num - 1 := stop] else y)\<rparr>)"

text \<open>
  \<^verbatim>\<open>np.concatenate\<close> along axis 0. It raises ValueError on an empty sequence, on a
  zero-dimensional array and when the arrays differ in a dimension other than the first.
  In row-major order joining along axis 0 appends the element lists.
\<close>

definition concatenate :: "ndarray list \<Rightarrow> ndarray option" where
  "concatenate arrs =
     (case arrs of
        [] \<Rightarrow> None
      | a # _ \<Rightarrow>
          if list_all (\<lambda>b. shape b \<noteq> [] \<and> tl (shape b) = tl (shape a)) arrs
          then Some \<lparr>shape = sum_list (map (\<lambda>b. hd (shape b)) arrs) # tl (shape a),
                     data = concat (map data arrs)\<rparr>
          else None)"

text \<open>\<^verbatim>\<open>np.atleast_2d\<close>: a scalar becomes 1 by 1, a vector of n elements 1 by n.\<close>

definition atleast_2d :: "ndarray \<Rightarrow> ndarray" where
  "atleast_2d a =
     (case shape a of
        [] \<Rightarrow> a\<lparr>shape := [1, 1]\<rparr>
      | [n] \<Rightarrow> a\<lparr>shape := [1, n]\<rparr>
      | _ \<Rightarrow> a)"

text \<open>\<^verbatim>\<open>np.vstack(tup)\<close> is \<^verbatim>\<open>concatenate([atleast_2d(a) for a in tup], 0)\<close>.\<close>

definition vstack :: "ndarray list \<Rightarrow> ndarray option" where
  "vstack tup = concatenate (map atleast_2d tup)"

text \<open>\<^verbatim>\<open>a.flatten()\<close>: the elements in row-major order as a one-dimensional array.\<close>

definition flatten :: "ndarray \<Rightarrow> ndarray" where
  "flatten a = \<lparr>shape = [length (data a)], data = data a\<rparr>"

text \<open>Python's \<^verbatim>\<open>len(a)\<close> is the first dimension; TypeError on a zero-dimensional array.\<close>

definition len :: "ndarray \<Rightarrow> nat option" where
  "len a = (case shape a of [] \<Rightarrow> None | n # _ \<Rightarrow> Some n)"

text \<open>The rows of a two-dimensional array (empty for any other rank).\<close>

fun chop :: "nat \<Rightarrow> nat \<Rightarrow> real list \<Rightarrow> real list list" where
  "chop 0 n xs = []"
| "chop (Suc m) n xs = take n xs # chop m n (drop n xs)"

definition rows :: "ndarray \<Rightarrow> real list list" where
  "rows a = (case shape a of [m, n] \<Rightarrow> chop m n (data a) | _ \<Rightarrow> [])"

subsection \<open>Noise\<close>

text \<open>
  \<^verbatim>\<open>
  def noise(x, sd):
      return np.random.normal(0, scale=sd, size=x.shape)
  \<close>
  The global generator is a stream of standard normal draws, passed in and handed back
  advanced by the number of draws taken; a draw with location 0 and scale sd is
  \<open>0 + sd * z\<close>. Nothing is assumed about the stream.
\<close>

type_synonym rng = "nat \<Rightarrow> real"

definition noise :: "rng \<Rightarrow> ndarray \<Rightarrow> real \<Rightarrow> ndarray \<times> rng" where
  "noise g x sd =
     (let n = prod_list (shape x)
      in (\<lparr>shape = shape x, data = map (\<lambda>i. 0 + sd * g i) [0..<n]\<rparr>, \<lambda>i. g (i + n)))"

text \<open>
  \<^verbatim>\<open>a + b\<close> on two arrays. The notebook only ever adds arrays of one shape (the noise is
  drawn with \<^verbatim>\<open>size=x.shape\<close>), where the sum is elementwise; numpy's broadcasting of
  operands of different shapes is not modelled and is \<open>None\<close> here, as a shape error is.
\<close>

definition arr_add :: "ndarray \<Rightarrow> ndarray \<Rightarrow> ndarray option" where
  "arr_add a b =
     (if shape a = shape b
      then Some \<lparr>shape = shape a, data = map2 (+) (data a) (data b)\<rparr>
      else None)"

subsection \<open>The DataFrame\<close>

text \<open>
  A column has one dtype. pandas takes float64 from a float array and infers int64 from a
  Python list of ints; every column must be one-dimensional and all of one length
  (ValueError otherwise). Columns keep the order of the dict.
\<close>

datatype dtype = Float64 | Int64

datatype column = FloatCol "real list" | IntCol "int list"

datatype pyvalue = Array ndarray | IntList "int list"

type_synonym dataframe = "(string \<times> column) list"

fun dtype_of :: "column \<Rightarrow> dtype" where
  "dtype_of (FloatCol _) = Float64"
| "dtype_of (IntCol _) = Int64"

fun col_length :: "column \<Rightarrow> nat" where
  "col_length (FloatCol xs) = length xs"
| "col_length (IntCol xs) = length xs"

fun to_column :: "pyvalue \<Rightarrow> column option" where
  "to_column (Array a) = (if length (shape a) = 1 then Some (FloatCol (data a)) else None)"
| "to_column (IntList xs) = Some (IntCol xs)"

fun to_columns :: "(string \<times> pyvalue) list \<Rightarrow> dataframe option" where
  "to_columns [] = Some []"
| "to_columns ((k, v) # kvs) =
     (case to_column v of
        None \<Rightarrow> None
      | Some c \<Rightarrow> (case to_columns kvs of None \<Rightarrow> None | Some cs \<Rightarrow> Some ((k, c) # cs)))"

definition same_length :: "dataframe \<Rightarrow> bool" where
  "same_length cols =
     (case cols of [] \<Rightarrow> True
      | (_, c) # _ \<Rightarrow> list_all (\<lambda>kc. col_length (snd kc) = col_length c) cols)"

definition DataFrame :: "(string \<times> pyvalue) list \<Rightarrow> dataframe option" where
  "DataFrame d =
     (case to_columns d of
        None \<Rightarrow> None
      | Some cols \<Rightarrow> if same_length cols then Some cols else None)"

definition nrows :: "dataframe \<Rightarrow> nat" where
  "nrows frame = (case frame of [] \<Rightarrow> 0 | (_, c) # _ \<Rightarrow> col_length c)"

text \<open>\<^verbatim>\<open>df[name]\<close>: the column, KeyError when there is none.\<close>

definition getitem :: "dataframe \<Rightarrow> string \<Rightarrow> column option" where
  "getitem frame name = map_of frame name"

definition dtypes :: "dataframe \<Rightarrow> (string \<times> dtype) list" where
  "dtypes frame = map (\<lambda>kc. (fst kc, dtype_of (snd kc))) frame"

text \<open>The value of a column at a position, tagged with its type.\<close>

datatype cell = F real | I int

fun cell_at :: "column \<Rightarrow> nat \<Rightarrow> cell" where
  "cell_at (FloatCol xs) i = F (xs ! i)"
| "cell_at (IntCol xs) i = I (xs ! i)"

text \<open>
  The rows whose molecule is k, in frame order: \<^verbatim>\<open>df[df["molecule"] == k]\<close>. A row is
  the value of every column at one position below the number of rows.
\<close>

definition rows_of_molecule :: "dataframe \<Rightarrow> int \<Rightarrow> (string \<times> cell) list list" where
  "rows_of_molecule frame k =
     filter (\<lambda>r. map_of r ''molecule'' = Some (I k))
       (map (\<lambda>i. map (\<lambda>kc. (fst kc, cell_at (snd kc) i)) frame) [0..<nrows frame])"

subsection \<open>The three PyMC3 models\<close>

text \<open>
  A model is the list of random variables its \<^verbatim>\<open>with pm.Model()\<close> block declares, in
  order. A distribution parameter is an expression: a number, another random variable, a
  random variable indexed by a column of the frame (\<^verbatim>\<open>lower[df["molecule"].values]\<close>), a
  column, or the curve applied to such expressions.
\<close>

datatype expr =
    Num real
  | RV string
  | RVat string string
  | Col string
  | DoseResponse expr expr expr expr expr

datatype dist =
    Normal expr expr
  | HalfNormal expr
  | Exponential expr
  | Gamma expr expr

record rv =
  rv_name :: string
  rv_dist :: dist
  rv_shape :: "nat list"
  observed :: "expr option"

type_synonym pm_model = "rv list"

text \<open>The transformation \<^verbatim>\<open>mu = dose_response(df["concentration"], lower[...], ...)\<close>.\<close>

definition mu :: expr where
  "mu = DoseResponse (Col ''concentration'') (RVat ''lower'' ''molecule'')
          (RVat ''upper'' ''molecule'') (RVat ''slope'' ''molecule'') (RVat ''c50'' ''molecule'')"

definition like :: rv where
  "like = \<lparr>rv_name = ''like'', rv_dist = Normal mu (RVat ''sd'' ''molecule''),
            rv_shape = [], observed = Some (Col ''response'')\<rparr>"

definition sd :: rv where
  "sd = \<lparr>rv_name = ''sd'', rv_dist = HalfNormal (Num 10), rv_shape = [3], observed = None\<rparr>"

definition model :: pm_model where
  "model =
     [\<lparr>rv_name = ''lower'', rv_dist = Normal (Num 0) (Num 10), rv_shape = [3], observed = None\<rparr>,
      \<lparr>rv_name = ''upper'', rv_dist = Normal (Num 10) (Num 10), rv_shape = [3], observed = None\<rparr>,
      \<lparr>rv_name = ''c50'', rv_dist = Normal (Num 0) (Num 10), rv_shape = [3], observed = None\<rparr>,
      \<lparr>rv_name = ''slope'', rv_dist = HalfNormal (Num 10), rv_shape = [3], observed = None\<rparr>,
      sd, like]"

definition model_v2 :: pm_model where
  "model_v2 =
     [\<lparr>rv_name = ''lower_mu'', rv_dist = Normal (Num 0) (Num 3), rv_shape = [], observed = None\<rparr>,
      \<lparr>rv_name = ''lower_sd'', rv_dist = Exponential (Num 5), rv_shape = [], observed = None\<rparr>,
      \<lparr>rv_name = ''lower'', rv_dist = Normal (RV ''lower_mu'') (RV ''lower_sd''),
        rv_shape = [3], observed = None\<rparr>,
      \<lparr>rv_name = ''upper_mu'', rv_dist = Normal (Num 7) (Num 3), rv_shape = [], observed = None\<rparr>,
      \<lparr>rv_name = ''upper_sd'', rv_dist = Exponential (Num 5), rv_shape = [], observed = None\<rparr>,
      \<lparr>rv_name = ''upper'', rv_dist = Normal (RV ''upper_mu'') (RV ''upper_sd''),
        rv_shape = [3], observed = None\<rparr>,
      \<lparr>rv_name = ''c50_mu'', rv_dist = Normal (Num 0) (Num 3), rv_shape = [], observed = None\<rparr>,
      \<lparr>rv_name = ''c50_sd'', rv_dist = Exponential (Num 5), rv_shape = [], observed = None\<rparr>,
      \<lparr>rv_name = ''c50'', rv_dist = Normal (RV ''c50_mu'') (RV ''c50_sd''),
        rv_shape = [3], observed = None\<rparr>,
      \<lparr>rv_name = ''slope_sd'', rv_dist = Exponential (Num 5), rv_shape = [], observed = None\<rparr>,
      \<lparr>rv_name = ''slope'', rv_dist = HalfNormal (RV ''slope_sd''), rv_shape = [3], observed = None\<rparr>,
      sd, like]"

definition model_v3 :: pm_model where
  "model_v3 =
     [\<lparr>rv_name = ''lower_mu'', rv_dist = HalfNormal (Num 10), rv_shape = [], observed = None\<rparr>,
      \<lparr>rv_name = ''lower_sd'', rv_dist = Exponential (Num 5), rv_shape = [], observed = None\<rparr>,
      \<lparr>rv_name = ''lower'', rv_dist = Gamma (RV ''lower_mu'') (RV ''lower_sd''),
        rv_shape = [3], observed = None\<rparr>,
      \<lparr>rv_name = ''upper_mu'', rv_dist = HalfNormal (Num 10), rv_shape = [], observed = None\<rparr>,
      \<lparr>rv_name = ''upper_sd'', rv_dist = Exponential (Num 5), rv_shape = [], observed = None\<rparr>,
      \<lparr>rv_name = ''upper'', rv_dist = Gamma (RV ''upper_mu'') (RV ''upper_sd''),
        rv_shape = [3], observed = None\<rparr>,
      \<lparr>rv_name = ''c50_mu'', rv_dist = Normal (Num 0) (Num 3), rv_shape = [], observed = None\<rparr>,
      \<lparr>rv_name = ''c50_sd'', rv_dist = Exponential (Num 5), rv_shape = [], observed = None\<rparr>,
      \<lparr>rv_name = ''c50'', rv_dist = Normal (RV ''c50_mu'') (RV ''c50_sd''),
        rv_shape = [3], observed = None\<rparr>,
      \<lparr>rv_name = ''slope_sd'', rv_dist = Exponential (Num 5), rv_shape = [], observed = None\<rparr>,
      \<lparr>rv_name = ''slope'', rv_dist = HalfNormal (RV ''slope_sd''), rv_shape = [3], observed = None\<rparr>,
      sd, like]"

text \<open>
  Reading a model: the random variables an expression mentions, the parameters of a
  distribution, and the declaration of a name.
\<close>

fun expr_rvs :: "expr \<Rightarrow> string list" where
  "expr_rvs (Num _) = []"
| "expr_rvs (RV n) = [n]"
| "expr_rvs (RVat n _) = [n]"
| "expr_rvs (Col _) = []"
| "expr_rvs (DoseResponse x a b c d) =
     expr_rvs x @ expr_rvs a @ expr_rvs b @ expr_rvs c @ expr_rvs d"

fun dist_params :: "dist \<Rightarrow> expr list" where
  "dist_params (Normal m s) = [m, s]"
| "dist_params (HalfNormal s) = [s]"
| "dist_params (Exponential l) = [l]"
| "dist_params (Gamma m s) = [m, s]"

definition lookup_rv :: "pm_model \<Rightarrow> string \<Rightarrow> rv option" where
  "lookup_rv m n = find (\<lambda>r. rv_name r = n) m"

text \<open>
  Partial pooling, as the specification words it: a per-molecule parameter (one value per
  molecule, a non-scalar shape) whose prior has a parameter that is itself a random variable
  of the model shared by all molecules (a scalar, unobserved): a group-level hyperprior. A
  prior whose parameters are all numbers has none.
\<close>

definition group_level :: "pm_model \<Rightarrow> string \<Rightarrow> bool" where
  "group_level m n =
     (case lookup_rv m n of
        None \<Rightarrow> False
      | Some r \<Rightarrow> rv_shape r = [] \<and> observed r = None)"

definition hyperpriors :: "pm_model \<Rightarrow> string \<Rightarrow> string list" where
  "hyperpriors m n =
     (case lookup_rv m n of
        None \<Rightarrow> []
      | Some r \<Rightarrow> filter (group_level m) (concat (map expr_rvs (dist_params (rv_dist r)))))"

definition partially_pooled :: "pm_model \<Rightarrow> string \<Rightarrow> bool" where
  "partially_pooled m n =
     (case lookup_rv m n of
        None \<Rightarrow> False
      | Some r \<Rightarrow> rv_shape r \<noteq> [] \<and> hyperpriors m n \<noteq> [])"

definition curve_parameters :: "string list" where
  "curve_parameters = [''lower'', ''upper'', ''c50'', ''slope'']"

subsection \<open>The notebook, run top to bottom\<close>

text \<open>
  What the notebook asks of the libraries outside it, in order: the scatter plots, the
  sampler (\<^verbatim>\<open>pm.sample(draws)\<close> inside \<^verbatim>\<open>with m:\<close>), the trace plots (of the trace
  sampled from the model named) and \<^verbatim>\<open>plt.show()\<close>. The last cells, which average the
  third trace, read what the sampler returned and are not part of the model.
\<close>

datatype call =
    Scatter ndarray ndarray
  | Sample pm_model nat
  | Traceplot pm_model "string list"
  | Show

fun is_sample :: "call \<Rightarrow> bool" where
  "is_sample (Sample _ _) = True"
| "is_sample _ = False"

record namespace =
  x1 :: ndarray
  x2 :: ndarray
  x3 :: ndarray
  y1 :: ndarray
  y2 :: ndarray
  y3 :: ndarray
  df :: dataframe
  calls :: "call list"

text \<open>
  \<^verbatim>\<open>
  x1 = np.vstack([np.linspace(-2, 2, 10)] * 5)      # x2, x3 alike
  y1 = dose_response(x1, lower=3, upper=6, slope=4, c50=0) + noise(x1, 0.5)
  y2 = dose_response(x2, lower=2.5, upper=8, slope=3, c50=1.5) + noise(x2, 0.5)
  y3 = dose_response(x3, lower=3.2, upper=3.4, slope=1.5, c50=0.0) + noise(x3, 0.5)
  df = pd.DataFrame({
      "concentration": np.concatenate([x1.flatten(), x2.flatten(), x3.flatten()]),
      "response": np.concatenate([y1.flatten(), y2.flatten(), y3.flatten()]),
      "molecule": [0] * len(x1.flatten()) + [1] * len(x2.flatten()) + [2] * len(x3.flatten())})
  \<close>
\<close>

definition grid :: "ndarray option" where
  "grid = vstack (replicate 5 (linspace (- 2) 2 10))"

definition responses :: "rng \<Rightarrow> ndarray \<Rightarrow> ndarray \<Rightarrow> ndarray \<Rightarrow> (ndarray \<times> ndarray \<times> ndarray) option" where
  "responses g0 a1 a2 a3 = do {
     d1 \<leftarrow> dose_response a1 3 6 4 0;
     let (n1, g1) = noise g0 a1 0.5;
     b1 \<leftarrow> arr_add d1 n1;
     d2 \<leftarrow> dose_response a2 2.5 8 3 1.5;
     let (n2, g2) = noise g1 a2 0.5;
     b2 \<leftarrow> arr_add d2 n2;
     d3 \<leftarrow> dose_response a3 3.2 3.4 1.5 0.0;
     let (n3, g3) = noise g2 a3 0.5;
     b3 \<leftarrow> arr_add d3 n3;
     Some (b1, b2, b3)
   }"

definition frame :: "ndarray \<Rightarrow> ndarray \<Rightarrow> ndarray \<Rightarrow> ndarray \<Rightarrow> ndarray \<Rightarrow> ndarray \<Rightarrow> dataframe option" where
  "frame a1 a2 a3 b1 b2 b3 = do {
     concentration \<leftarrow> concatenate [flatten a1, flatten a2, flatten a3];
     response \<leftarrow> concatenate [flatten b1, flatten b2, flatten b3];
     l1 \<leftarrow> len (flatten a1);
     l2 \<leftarrow> len (flatten a2);
     l3 \<leftarrow> len (flatten a3);
     DataFrame [(''concentration'', Array concentration), (''response'', Array response),
       (''molecule'', IntList (replicate l1 0 @ replicate l2 1 @ replicate l3 2))]
   }"

definition notebook :: "rng \<Rightarrow> namespace option" where
  "notebook g = do {
     a1 \<leftarrow> grid;
     a2 \<leftarrow> grid;
     a3 \<leftarrow> grid;
     (b1, b2, b3) \<leftarrow> responses g a1 a2 a3;
     d \<leftarrow> frame a1 a2 a3 b1 b2 b3;
     Some \<lparr>x1 = a1, x2 = a2, x3 = a3, y1 = b1, y2 = b2, y3 = b3, df = d,
       calls = [Scatter a1 b1, Scatter a2 b2, Scatter a3 b3,
                Sample model 2000, Traceplot model [''upper''], Show,
                Sample model_v2 2000, Traceplot model_v2 [''upper''],
                Sample model_v3 2000, Traceplot model_v3 [''upper'']]\<rparr>
   }"

text \<open>A generator that only ever draws 0, to run the notebook on.\<close>

definition zero_rng :: rng where
  "zero_rng i = 0"

subsection \<open>Vocabulary of the specification\<close>

text \<open>
  The specification's words, to compare the notebook with: the 10 evenly spaced points from
  -2 to 2, the 5-by-10 array whose every row is those points, a frame of the three named
  columns, one of its rows, and a frame of floats.
\<close>

definition even_points :: "real list" where
  "even_points = map (\<lambda>i. - 2 + real i * ((2 - (- 2)) / 9)) [0..<10]"

definition grid_array :: ndarray where
  "grid_array = \<lparr>shape = [5, 10], data = concat (replicate 5 even_points)\<rparr>"

definition three_cols :: "real list \<Rightarrow> real list \<Rightarrow> int list \<Rightarrow> dataframe" where
  "three_cols C R M =
     [(''concentration'', FloatCol C), (''response'', FloatCol R), (''molecule'', IntCol M)]"

definition row3 :: "real list \<Rightarrow> real list \<Rightarrow> int \<Rightarrow> nat \<Rightarrow> (string \<times> cell) list" where
  "row3 C R k i = [(''concentration'', F (C ! i)), (''response'', F (R ! i)), (''molecule'', I k)]"

definition all_float :: "dataframe \<Rightarrow> bool" where
  "all_float fr = list_all (\<lambda>kc. dtype_of (snd kc) = Float64) fr"

text \<open>The calls of a run in which the three grids are one array.\<close>

definition the_calls :: "ndarray \<Rightarrow> ndarray \<Rightarrow> ndarray \<Rightarrow> ndarray \<Rightarrow> call list" where
  "the_calls a b1 b2 b3 =
     [Scatter a b1, Scatter a b2, Scatter a b3,
      Sample model 2000, Traceplot model [''upper''], Show,
      Sample model_v2 2000, Traceplot model_v2 [''upper''],
      Sample model_v3 2000, Traceplot model_v3 [''upper'']]"

subsection \<open>The float64 evaluation of the curve\<close>

text \<open>
  numpy evaluates the expression in IEEE 754 binary64. A float64 value is a finite real, an
  infinity or nan; \<open>Fin\<close> takes any real as an input, and every operation returns a
  representable one. The sign of a zero is not kept: the divisor of the curve is never zero,
  so no result of it depends on that sign.
\<close>

datatype f64 = Fin real | PInf | NInf | NaN

text \<open>A real rounded to an integer, to the nearest one and to the even one on a tie.\<close>

definition rhe :: "real \<Rightarrow> int" where
  "rhe r = (let f = \<lfloor>r\<rfloor> in
     if r - of_int f < 1 / 2 then f
     else if 1 / 2 < r - of_int f then f + 1
     else if even f then f else f + 1)"

text \<open>
  The binary exponent of a positive real, not below -1022, that of the smallest normal
  number (below it the spacing stays that of the subnormal numbers), and the spacing of the
  float64 values at that exponent: 53 significant bits.
\<close>

definition bexp :: "real \<Rightarrow> int" where
  "bexp x = max \<lfloor>log 2 x\<rfloor> (- 1022)"

definition ulp :: "real \<Rightarrow> real" where
  "ulp x = 2 powi (bexp x - 52)"

text \<open>
  Rounding: a non-negative real goes to the nearest multiple of the spacing, ties to even.
  A magnitude that rounds above the largest finite value, \<open>2^1024 - 2^971\<close>, overflows to
  an infinity.
\<close>

definition rpos :: "real \<Rightarrow> real" where
  "rpos x = ulp x * of_int (rhe (x / ulp x))"

definition max_f64 :: real where
  "max_f64 = 2 powi 1024 - 2 powi 971"

definition rnd :: "real \<Rightarrow> f64" where
  "rnd x = (if x = 0 then Fin 0
            else if max_f64 < rpos \<bar>x\<bar> then (if 0 < x then PInf else NInf)
            else Fin (sgn x * rpos \<bar>x\<bar>))"

text \<open>The comparison \<^verbatim>\<open><=\<close> of float64 values: false as soon as one side is nan.\<close>

fun f_le :: "f64 \<Rightarrow> f64 \<Rightarrow> bool" where
  "f_le NaN _ = False"
| "f_le _ NaN = False"
| "f_le NInf _ = True"
| "f_le _ PInf = True"
| "f_le (Fin a) (Fin b) = (a \<le> b)"
| "f_le _ _ = False"

text \<open>
  The operations: on finite operands the exact result, rounded; on infinities and nan the
  IEEE rules. A finite non-zero value divided by zero is an infinity, zero by zero is nan.
\<close>

fun f_neg :: "f64 \<Rightarrow> f64" where
  "f_neg (Fin a) = Fin (- a)"
| "f_neg PInf = NInf"
| "f_neg NInf = PInf"
| "f_neg NaN = NaN"

fun f_add :: "f64 \<Rightarrow> f64 \<Rightarrow> f64" where
  "f_add (Fin a) (Fin b) = rnd (a + b)"
| "f_add NaN _ = NaN"
| "f_add _ NaN = NaN"
| "f_add PInf NInf = NaN"
| "f_add NInf PInf = NaN"
| "f_add PInf _ = PInf"
| "f_add _ PInf = PInf"
| "f_add NInf _ = NInf"
| "f_add _ NInf = NInf"

definition f_sub :: "f64 \<Rightarrow> f64 \<Rightarrow> f64" where
  "f_sub a b = f_add a (f_neg b)"

fun f_mul :: "f64 \<Rightarrow> f64 \<Rightarrow> f64" where
  "f_mul (Fin a) (Fin b) = rnd (a * b)"
| "f_mul NaN _ = NaN"
| "f_mul _ NaN = NaN"
| "f_mul (Fin a) PInf = (if a = 0 then NaN else if 0 < a then PInf else NInf)"
| "f_mul (Fin a) NInf = (if a = 0 then NaN else if 0 < a then NInf else PInf)"
| "f_mul PInf (Fin b) = (if b = 0 then NaN else if 0 < b then PInf else NInf)"
| "f_mul NInf (Fin b) = (if b = 0 then NaN else if 0 < b then NInf else PInf)"
| "f_mul PInf PInf = PInf"
| "f_mul PInf NInf = NInf"
| "f_mul NInf PInf = NInf"
| "f_mul NInf NInf = PInf"

fun f_div :: "f64 \<Rightarrow> f64 \<Rightarrow> f64" where
  "f_div (Fin a) (Fin b) =
     (if b = 0 then (if a = 0 then NaN else if 0 < a then PInf else NInf) else rnd (a / b))"
| "f_div NaN _ = NaN"
| "f_div _ NaN = NaN"
| "f_div (Fin a) _ = Fin 0"
| "f_div PInf (Fin b) = (if 0 \<le> b then PInf else NInf)"
| "f_div NInf (Fin b) = (if 0 \<le> b then NInf else PInf)"
| "f_div _ _ = NaN"

text \<open>
  \<^verbatim>\<open>np.exp\<close>. On a finite argument it is the library's exponential, taken as the
  parameter \<open>E\<close>: numpy does not fix its rounding. \<open>cr_exp\<close> is the correctly rounded
  exponential, one such function, to run the evaluation on concrete inputs.
\<close>

fun f_exp :: "(real \<Rightarrow> f64) \<Rightarrow> f64 \<Rightarrow> f64" where
  "f_exp E (Fin t) = E t"
| "f_exp E PInf = PInf"
| "f_exp E NInf = Fin 0"
| "f_exp E NaN = NaN"

definition cr_exp :: "real \<Rightarrow> f64" where
  "cr_exp t = rnd (exp t)"

text \<open>
  The source expression \<^verbatim>\<open>lower + (upper - lower) / (1 + np.exp(slope * (c50 - x)))\<close> at
  one float64 x-value, every operation rounding.
\<close>

definition dose_response_f64 :: "(real \<Rightarrow> f64) \<Rightarrow> f64 \<Rightarrow> f64 \<Rightarrow> f64 \<Rightarrow> f64 \<Rightarrow> f64 \<Rightarrow> f64" where
  "dose_response_f64 E x lower upper slope c50 =
     f_add lower (f_div (f_sub upper lower) (f_add (Fin 1) (f_exp E (f_mul slope (f_sub c50 x)))))"

section \<open>Properties of the curve\<close>

lemma denominator_data:
  "data (denominator x slope c50) = map (\<lambda>v. 1 + exp (slope * (c50 - v))) (data x)"
  by (simp add: denominator_def scalar_add_def np_exp_def scalar_mul_def scalar_rsub_def)

lemma denominator_shape: "shape (denominator x slope c50) = shape x"
  by (simp add: denominator_def scalar_add_def np_exp_def scalar_mul_def scalar_rsub_def)

lemma one_plus_exp_pos: "0 < 1 + exp (t::real)"
  by (simp add: add_pos_pos)

lemma denominator_no_zero:
  "\<not> list_ex (\<lambda>v. v = 0) (map (\<lambda>v::real. 1 + exp (slope * (c50 - v))) xs)"
proof (induction xs)
  case Nil
  show ?case by simp
next
  case (Cons v vs)
  have "1 + exp (slope * (c50 - v)) \<noteq> 0"
    using one_plus_exp_pos [of "slope * (c50 - v)"] by simp
  with Cons show ?case by simp
qed

lemma dose_response_closed_form:
  "dose_response x lower upper slope c50 =
     Some \<lparr>shape = shape x,
           data = map (\<lambda>v. lower + (upper - lower) / (1 + exp (slope * (c50 - v)))) (data x)\<rparr>"
  by (simp add: dose_response_def scalar_rdiv_def denominator_data denominator_no_zero
      denominator_shape scalar_add_def)

lemma dose_response_at_closed_form:
  "dose_response_at x lower upper slope c50 =
     Some (lower + (upper - lower) / (1 + exp (slope * (c50 - x))))"
  by (simp add: dose_response_at_def dose_response_closed_form scalar_def item_def)

text \<open>
  C1. For every lower, upper, slope, c50 and every array x, \<open>dose_response\<close> returns an
  array of the shape of x whose every element is
  \<open>lower + (upper - lower) / (1 + exp (slope * (c50 - x\<^sub>i)))\<close> for the element \<open>x\<^sub>i\<close> at the same
  position: the closed-form four-parameter sigmoid, elementwise.
\<close>

theorem dose_response_elementwise:
  "dose_response x lower upper slope c50 =
     Some \<lparr>shape = shape x,
           data = map (\<lambda>xi. lower + (upper - lower) / (1 + exp (slope * (c50 - xi)))) (data x)\<rparr>"
  by (simp add: dose_response_def scalar_rdiv_def denominator_data denominator_no_zero
      denominator_shape scalar_add_def)

text \<open>
  C8. \<open>dose_response\<close> never divides by zero: every element of the divisor
  \<open>1 + exp (slope * (c50 - x))\<close> is strictly positive, so the quotient and the result exist.
\<close>

theorem denominator_positive:
  "list_all (\<lambda>d. 0 < d) (data (denominator x slope c50))
   \<and> (\<exists>q. scalar_rdiv (upper - lower) (denominator x slope c50) = Some q)
   \<and> (\<exists>y. dose_response x lower upper slope c50 = Some y)"
  by (simp add: denominator_data dose_response_closed_form scalar_rdiv_def denominator_no_zero
      list_all_iff one_plus_exp_pos)

subsection \<open>The expression in exact arithmetic\<close>

text \<open>
  Without rounding the expression is the logistic curve: at \<open>x = c50\<close> it is the midpoint
  of the plateaus, it lies strictly between them, and for a positive slope it increases
  strictly from lower to upper. These are facts of the exact values only; what float64
  returns is the subject of the next section.
\<close>

lemma exact_midpoint:
  "dose_response_at c50 lower upper slope c50 = Some ((lower + upper) / 2)"
  by (simp add: dose_response_at_closed_form field_simps)

lemma curve_bounds:
  fixes l u t :: real
  assumes "l < u"
  shows "l < l + (u - l) / (1 + exp t)" "l + (u - l) / (1 + exp t) < u"
proof -
  have p: "0 < 1 + exp t" by (rule one_plus_exp_pos)
  have "0 < (u - l) / (1 + exp t)" using assms p by simp
  then show "l < l + (u - l) / (1 + exp t)" by simp
  have "0 < (u - l) * exp t" using assms by simp
  then have "u - l < (u - l) * (1 + exp t)" by (simp add: algebra_simps)
  then have "(u - l) / (1 + exp t) < u - l" using p by (simp add: pos_divide_less_eq)
  then show "l + (u - l) / (1 + exp t) < u" by linarith
qed

lemma exact_between_plateaus:
  "(lower < upper \<longrightarrow>
      (\<exists>y. dose_response_at x lower upper slope c50 = Some y \<and> lower < y \<and> y < upper))
   \<and> (lower = upper \<longrightarrow> dose_response_at x lower upper slope c50 = Some lower)"
proof (intro conjI impI)
  assume "lower < upper"
  then show "\<exists>y. dose_response_at x lower upper slope c50 = Some y \<and> lower < y \<and> y < upper"
    unfolding dose_response_at_closed_form using curve_bounds [of lower upper] by blast
next
  assume "lower = upper"
  then show "dose_response_at x lower upper slope c50 = Some lower"
    by (simp add: dose_response_at_closed_form)
qed

lemma curve_strict_mono:
  fixes l u s c :: real
  assumes "0 < s" "l < u"
  shows "strict_mono (\<lambda>x. l + (u - l) / (1 + exp (s * (c - x))))"
proof (rule strict_monoI)
  fix x y :: real
  assume xy: "x < y"
  have "s * (c - y) < s * (c - x)" using assms xy by simp
  then have e: "1 + exp (s * (c - y)) < 1 + exp (s * (c - x))" by simp
  have "(u - l) / (1 + exp (s * (c - x))) < (u - l) / (1 + exp (s * (c - y)))"
    using e assms by (intro divide_strict_left_mono) (simp_all add: one_plus_exp_pos)
  then show "l + (u - l) / (1 + exp (s * (c - x))) < l + (u - l) / (1 + exp (s * (c - y)))"
    by simp
qed

lemma arg_at_bot:
  fixes s c :: real
  assumes "0 < s"
  shows "filterlim (\<lambda>x. s * (c - x)) at_bot at_top"
  unfolding filterlim_at_bot eventually_at_top_linorder
proof
  fix Z :: real
  have "\<forall>n\<ge>c - Z / s. s * (c - n) \<le> Z"
    using assms by (auto simp: field_simps)
  then show "\<exists>N. \<forall>n\<ge>N. s * (c - n) \<le> Z" by blast
qed

lemma arg_at_top:
  fixes s c :: real
  assumes "0 < s"
  shows "filterlim (\<lambda>x. s * (c - x)) at_top at_bot"
  unfolding filterlim_at_top eventually_at_bot_linorder
proof
  fix Z :: real
  have "\<forall>n\<le>c - Z / s. Z \<le> s * (c - n)"
    using assms by (auto simp: field_simps)
  then show "\<exists>N. \<forall>n\<le>N. Z \<le> s * (c - n)" by blast
qed

lemma curve_at_top:
  fixes l u s c :: real
  assumes "0 < s"
  shows "((\<lambda>x. l + (u - l) / (1 + exp (s * (c - x)))) \<longlongrightarrow> u) at_top"
proof -
  have "((\<lambda>x. exp (s * (c - x))) \<longlongrightarrow> 0) at_top"
    by (rule filterlim_compose [OF exp_at_bot arg_at_bot [OF assms]])
  then have "((\<lambda>x. l + (u - l) / (1 + exp (s * (c - x)))) \<longlongrightarrow> l + (u - l) / (1 + 0)) at_top"
    by (intro tendsto_intros) simp_all
  then show ?thesis by simp
qed

lemma curve_at_bot:
  fixes l u s c :: real
  assumes "0 < s"
  shows "((\<lambda>x. l + (u - l) / (1 + exp (s * (c - x)))) \<longlongrightarrow> l) at_bot"
proof -
  have "filterlim (\<lambda>x. exp (s * (c - x))) at_top at_bot"
    by (rule filterlim_compose [OF exp_at_top arg_at_top [OF assms]])
  then have "filterlim (\<lambda>x. 1 + exp (s * (c - x))) at_top at_bot"
    by (rule filterlim_tendsto_add_at_top [OF tendsto_const])
  then have "((\<lambda>x. (u - l) / (1 + exp (s * (c - x)))) \<longlongrightarrow> 0) at_bot"
    by (intro tendsto_divide_0 [OF tendsto_const]
        filterlim_mono [OF _ at_top_le_at_infinity order_refl])
  then have "((\<lambda>x. l + (u - l) / (1 + exp (s * (c - x)))) \<longlongrightarrow> l + 0) at_bot"
    by (intro tendsto_intros)
  then show ?thesis by simp
qed

lemma exact_activation_curve:
  assumes "0 < slope" and "lower < upper"
  shows "\<exists>f. (\<forall>x. dose_response_at x lower upper slope c50 = Some (f x))
           \<and> strict_mono f \<and> (f \<longlongrightarrow> lower) at_bot \<and> (f \<longlongrightarrow> upper) at_top"
proof (intro exI conjI allI)
  show "dose_response_at x lower upper slope c50 =
      Some (lower + (upper - lower) / (1 + exp (slope * (c50 - x))))" for x
    by (rule dose_response_at_closed_form)
  show "strict_mono (\<lambda>x. lower + (upper - lower) / (1 + exp (slope * (c50 - x))))"
    using assms by (rule curve_strict_mono)
  show "((\<lambda>x. lower + (upper - lower) / (1 + exp (slope * (c50 - x)))) \<longlongrightarrow> lower) at_bot"
    using assms(1) by (rule curve_at_bot)
  show "((\<lambda>x. lower + (upper - lower) / (1 + exp (slope * (c50 - x)))) \<longlongrightarrow> upper) at_top"
    using assms(1) by (rule curve_at_top)
qed

section \<open>Properties of the float64 evaluation\<close>

text \<open>
  Concrete values are rounded by locating their binade. Rounding is monotone, and so is every
  operation of the expression in the direction the curve needs.
\<close>

subsection \<open>Rounding a value of a known binade\<close>

lemma bexp_binade:
  assumes "2 powi k \<le> x" "x < 2 powi (k + 1)" "- 1022 \<le> k"
  shows "bexp x = k"
proof -
  have x: "0 < x" using assms(1) by (smt (verit) zero_less_power_int)
  have p: "2 powr real_of_int k = 2 powi k" "2 powr (real_of_int k + 1) = 2 powi (k + 1)"
    using powr_real_of_int' [of 2 k] powr_real_of_int' [of 2 "k + 1"] by simp_all
  have "\<lfloor>log 2 x\<rfloor> = k"
    using assms x by (simp add: floor_log_eq_powr_iff p)
  then show ?thesis using assms(3) by (simp add: bexp_def)
qed

lemma rhe_bounds: "real_of_int (rhe r) \<le> r + 1 / 2" "r - 1 / 2 \<le> real_of_int (rhe r)"
  unfolding rhe_def Let_def by (auto; linarith)+

lemma rhe_of_int [simp]: "rhe (of_int n) = n"
  by (simp add: rhe_def)

lemma rhe_numeral [simp]: "rhe (numeral n) = numeral n"
  using rhe_of_int [of "numeral n"] by simp

lemma rnd_eval:
  assumes "2 powi k \<le> \<bar>x\<bar>" "\<bar>x\<bar> < 2 powi (k + 1)" "- 1022 \<le> k" "k \<le> 1000"
    and "rhe (\<bar>x\<bar> / 2 powi (k - 52)) = n"
  shows "rnd x = Fin (sgn x * (2 powi (k - 52) * of_int n))"
proof -
  have r: "rpos \<bar>x\<bar> = 2 powi (k - 52) * of_int n"
    by (simp add: rpos_def ulp_def bexp_binade [OF assms(1-3)] assms(5))
  have x0: "x \<noteq> 0" using assms(1) by (smt (verit) zero_less_power_int)
  have "\<bar>x\<bar> / 2 powi (k - 52) < 2 powi (k + 1) / 2 powi (k - 52)"
    using assms(2) by (simp add: divide_strict_right_mono)
  also have "\<dots> = 2 powi 53"
    by (simp add: power_int_diff [symmetric])
  finally have "real_of_int n \<le> 2 powi 53 + 1 / 2"
    using rhe_bounds(1) [of "\<bar>x\<bar> / 2 powi (k - 52)"] assms(5) by simp
  then have "real_of_int n \<le> 2 powi 54" by simp
  then have "2 powi (k - 52) * real_of_int n \<le> 2 powi (k - 52) * 2 powi 54"
    by (intro mult_left_mono) simp_all
  also have "\<dots> = (2::real) powi (k + 2)"
    using power_int_add [of "2::real" "k - 52" 54] by (simp add: add.commute)
  also have "\<dots> \<le> 2 powi 1002" using assms(4) by (intro power_int_increasing) simp_all
  also have "\<dots> \<le> max_f64" by (simp add: max_f64_def)
  finally show ?thesis using r x0 by (simp add: rnd_def)
qed

subsection \<open>Rounding is monotone\<close>

lemma rhe_cases: "rhe r = \<lfloor>r\<rfloor> \<or> rhe r = \<lfloor>r\<rfloor> + 1"
  by (simp add: rhe_def Let_def)

lemma rhe_mono:
  assumes "r \<le> s"
  shows "rhe r \<le> rhe s"
proof (cases "\<lfloor>r\<rfloor> < \<lfloor>s\<rfloor>")
  case True
  have "rhe r \<le> \<lfloor>r\<rfloor> + 1" using rhe_cases [of r] by auto
  moreover have "\<lfloor>s\<rfloor> \<le> rhe s" using rhe_cases [of s] by auto
  ultimately show ?thesis using True by linarith
next
  case False
  then have eq: "\<lfloor>r\<rfloor> = \<lfloor>s\<rfloor>" using floor_mono [OF assms] by linarith
  show ?thesis
    using assms unfolding rhe_def Let_def eq by auto
qed

lemma rhe_le_int: "r \<le> of_int n \<Longrightarrow> rhe r \<le> n"
  using rhe_mono [of r "of_int n"] by simp

lemma rhe_ge_int: "of_int n \<le> r \<Longrightarrow> n \<le> rhe r"
  using rhe_mono [of "of_int n" r] by simp

lemma bexp_mono:
  assumes "0 < x" "x \<le> y"
  shows "bexp x \<le> bexp y"
proof -
  have "log 2 x \<le> log 2 y" using assms by simp
  then have "\<lfloor>log 2 x\<rfloor> \<le> \<lfloor>log 2 y\<rfloor>" by (rule floor_mono)
  then show ?thesis by (simp add: bexp_def)
qed

lemma below_next_binade:
  assumes "0 < x"
  shows "x < 2 powi (bexp x + 1)"
proof -
  have "log 2 x < of_int (\<lfloor>log 2 x\<rfloor> + 1)" by linarith
  also have "\<dots> \<le> of_int (bexp x + 1)" by (simp add: bexp_def)
  finally have "2 powr log 2 x < 2 powr of_int (bexp x + 1)" by simp
  then show ?thesis using assms powr_real_of_int' [of 2 "bexp x + 1"] by simp
qed

lemma above_binade:
  assumes "0 < x" "- 1022 < bexp x"
  shows "2 powi bexp x \<le> x"
proof -
  have k: "bexp x = \<lfloor>log 2 x\<rfloor>" using assms(2) by (simp add: bexp_def max_def split: if_splits)
  have "of_int (bexp x) \<le> log 2 x" unfolding k by simp
  then have "2 powr of_int (bexp x) \<le> 2 powr log 2 x" by simp
  then show ?thesis using assms(1) by (simp add: powr_real_of_int')
qed

lemma ulp_pos: "0 < ulp x"
  by (simp add: ulp_def)

lemma ulp_scale: "ulp x * 2 powi 53 = 2 powi (bexp x + 1)" "ulp x * 2 powi 52 = 2 powi bexp x"
  using power_int_add [of "2::real" "bexp x - 52" 53] power_int_add [of "2::real" "bexp x - 52" 52]
  by (simp_all add: ulp_def add.commute)

lemma rpos_le_next:
  assumes "0 < x"
  shows "rpos x \<le> 2 powi (bexp x + 1)"
proof -
  have "x / ulp x \<le> 2 powi 53"
    using below_next_binade [OF assms] ulp_scale(1) [of x] ulp_pos [of x]
    by (simp add: field_simps)
  then have "x / ulp x \<le> of_int (2 ^ 53)" by simp
  then have "rhe (x / ulp x) \<le> 2 ^ 53" by (rule rhe_le_int)
  then have "real_of_int (rhe (x / ulp x)) \<le> 2 powi 53"
    by (metis of_int_le_iff of_int_numeral of_int_power power_int_numeral)
  then have "rpos x \<le> ulp x * 2 powi 53"
    unfolding rpos_def using ulp_pos [of x] by (intro mult_left_mono) simp_all
  then show ?thesis unfolding ulp_scale .
qed

lemma rpos_ge_binade:
  assumes "2 powi bexp x \<le> x"
  shows "2 powi bexp x \<le> rpos x"
proof -
  have "2 powi 52 \<le> x / ulp x"
    using assms ulp_scale(2) [of x] ulp_pos [of x] by (simp add: field_simps)
  then have "of_int (2 ^ 52) \<le> x / ulp x" by simp
  then have "2 ^ 52 \<le> rhe (x / ulp x)" by (rule rhe_ge_int)
  then have "2 powi 52 \<le> real_of_int (rhe (x / ulp x))"
    by (metis of_int_le_iff of_int_numeral of_int_power power_int_numeral)
  then have "ulp x * 2 powi 52 \<le> rpos x"
    unfolding rpos_def using ulp_pos [of x] by (intro mult_left_mono) simp_all
  then show ?thesis unfolding ulp_scale .
qed

lemma rpos_nonneg:
  assumes "0 \<le> x"
  shows "0 \<le> rpos x"
proof -
  have "0 \<le> x / ulp x" using assms ulp_pos [of x] by simp
  then have "of_int 0 \<le> x / ulp x" by simp
  then have "0 \<le> rhe (x / ulp x)" by (rule rhe_ge_int)
  then show ?thesis unfolding rpos_def using ulp_pos [of x] by simp
qed

lemma rpos_mono:
  assumes "0 < x" "x \<le> y"
  shows "rpos x \<le> rpos y"
proof (cases "bexp x = bexp y")
  case True
  then have u: "ulp x = ulp y" by (simp add: ulp_def)
  have "x / ulp y \<le> y / ulp y" using assms ulp_pos [of y] by (simp add: divide_right_mono)
  then have "rhe (x / ulp y) \<le> rhe (y / ulp y)" by (rule rhe_mono)
  then show ?thesis unfolding rpos_def u using ulp_pos [of y] by (intro mult_left_mono) simp_all
next
  case False
  then have lt: "bexp x < bexp y" using bexp_mono [OF assms] by simp
  have y: "0 < y" using assms by simp
  have "- 1022 \<le> bexp x" by (simp add: bexp_def)
  then have "- 1022 < bexp y" using lt by simp
  then have "2 powi bexp y \<le> rpos y" using above_binade [OF y] rpos_ge_binade by blast
  moreover have "rpos x \<le> 2 powi (bexp x + 1)" using rpos_le_next [OF assms(1)] .
  moreover have "(2::real) powi (bexp x + 1) \<le> 2 powi bexp y"
    using lt by (intro power_int_increasing) simp_all
  ultimately show ?thesis by linarith
qed

lemma rnd_mono:
  assumes "x \<le> y"
  shows "f_le (rnd x) (rnd y)"
proof -
  consider "x = 0" | "0 < x" | "x < 0" "y < 0" | "x < 0" "0 \<le> y" by linarith
  then show ?thesis
  proof cases
    case 1
    then show ?thesis using assms rpos_nonneg [of "\<bar>y\<bar>"] by (auto simp: rnd_def)
  next
    case 2
    then have "rpos \<bar>x\<bar> \<le> rpos \<bar>y\<bar>" using assms rpos_mono [of x y] by simp
    then show ?thesis using 2 assms by (auto simp: rnd_def)
  next
    case 3
    then have "rpos \<bar>y\<bar> \<le> rpos \<bar>x\<bar>" using assms rpos_mono [of "- y" "- x"] by simp
    then show ?thesis using 3 assms by (auto simp: rnd_def)
  next
    case 4
    then show ?thesis using rpos_nonneg [of "\<bar>y\<bar>"] rpos_nonneg [of "\<bar>x\<bar>"]
      by (auto simp: rnd_def)
  qed
qed

subsection \<open>The operations of the expression, one at a time\<close>

lemma rnd_not_nan [simp]: "rnd x \<noteq> NaN"
  by (simp add: rnd_def)

lemma rnd_0 [simp]: "rnd 0 = Fin 0"
  by (simp add: rnd_def)

lemma rnd_1 [simp]: "rnd 1 = Fin 1"
  using rnd_eval [of 0 1 "2 ^ 52"] by simp

lemma rnd_2 [simp]: "rnd 2 = Fin 2"
  using rnd_eval [of 1 2 "2 ^ 52"] by simp

lemma f_le_NInf [simp]: "f_le NInf v = (v \<noteq> NaN)"
  by (cases v) simp_all

lemma f_le_PInf [simp]: "f_le v PInf = (v \<noteq> NaN)"
  by (cases v) simp_all

lemma f_le_not_nan: "f_le a b \<Longrightarrow> a \<noteq> NaN \<and> b \<noteq> NaN"
  by (cases a; cases b) simp_all

lemma f_le_rnd_Fin: "f_le (Fin a) (rnd x) \<Longrightarrow> f_le (rnd x) (Fin b) \<Longrightarrow> \<exists>v. rnd x = Fin v \<and> a \<le> v \<and> v \<le> b"
  by (cases "rnd x") simp_all

lemma sub_antitone:
  assumes "x \<le> y"
  shows "f_le (f_sub (Fin c) (Fin y)) (f_sub (Fin c) (Fin x))"
  using assms by (simp add: f_sub_def rnd_mono)

lemma sub_not_nan [simp]: "f_sub (Fin c) (Fin x) \<noteq> NaN"
  by (simp add: f_sub_def)

lemma mul_pos_mono:
  assumes "0 < s" "f_le r1 r2"
  shows "f_le (f_mul (Fin s) r1) (f_mul (Fin s) r2)"
  using assms by (cases r1; cases r2) (simp_all add: rnd_mono)

lemma f_exp_mono:
  assumes "\<And>t1 t2. t1 \<le> t2 \<Longrightarrow> f_le (E t1) (E t2)" "\<And>t. f_le (Fin 0) (E t)" "f_le a1 a2"
  shows "f_le (f_exp E a1) (f_exp E a2)"
  using assms(3) assms(1) assms(2) f_le_not_nan [OF assms(2)]
  by (cases a1; cases a2) simp_all

lemma f_exp_nonneg:
  assumes "\<And>t. f_le (Fin 0) (E t)" "a \<noteq> NaN"
  shows "f_le (Fin 0) (f_exp E a)"
  using assms by (cases a) simp_all

lemma f_add_left_mono:
  assumes "f_le q1 q2"
  shows "f_le (f_add (Fin l) q1) (f_add (Fin l) q2)"
  using assms by (cases q1; cases q2) (simp_all add: rnd_mono)

lemma one_le_divisor:
  assumes "f_le (Fin 0) e"
  shows "f_le (Fin 1) (f_add (Fin 1) e)"
proof -
  have "f_le (f_add (Fin 1) (Fin 0)) (f_add (Fin 1) e)" using assms by (rule f_add_left_mono)
  then show ?thesis by simp
qed

lemma div_antitone:
  assumes "0 \<le> w" "f_le (Fin 1) d1" "f_le d1 d2"
  shows "f_le (f_div (Fin w) d2) (f_div (Fin w) d1)"
proof (cases d1)
  case (Fin v1)
  then have v1: "1 \<le> v1" using assms(2) by simp
  show ?thesis
  proof (cases d2)
    case (Fin v2)
    then have "v1 \<le> v2" using assms(3) \<open>d1 = Fin v1\<close> by simp
    then have "w / v2 \<le> w / v1" using assms(1) v1 by (simp add: frac_le)
    then show ?thesis using v1 \<open>v1 \<le> v2\<close> Fin \<open>d1 = Fin v1\<close> by (simp add: rnd_mono)
  next
    case PInf
    have "f_le (rnd 0) (rnd (w / v1))" using assms(1) v1 by (intro rnd_mono) simp
    then show ?thesis using PInf \<open>d1 = Fin v1\<close> v1 by simp
  qed (use assms Fin in simp_all)
next
  case PInf
  then show ?thesis using assms by (cases d2) simp_all
next
  case NInf
  then show ?thesis using assms by simp
next
  case NaN
  then show ?thesis using assms by simp
qed

lemma div_nonneg:
  assumes "0 \<le> w" "f_le (Fin 1) d"
  shows "f_le (Fin 0) (f_div (Fin w) d)"
proof (cases d)
  case (Fin v)
  then have v: "1 \<le> v" using assms(2) by simp
  have "f_le (rnd 0) (rnd (w / v))" using assms(1) v by (intro rnd_mono) simp
  then show ?thesis using Fin v by simp
qed (use assms in simp_all)

lemma div_le_top:
  assumes "0 \<le> w" "f_le (Fin 1) d"
  shows "f_le (f_div (Fin w) d) (f_div (Fin w) (Fin 1))"
  using div_antitone [OF assms(1) _ assms(2)] by simp

lemma rhe_near:
  assumes "of_int n \<le> r" "r < of_int n + 1 / 2"
  shows "rhe r = n"
proof -
  have "\<lfloor>r\<rfloor> = n" using assms by linarith
  then show ?thesis using assms by (simp add: rhe_def Let_def)
qed

lemma f_le_antisym: "f_le (Fin a) v \<Longrightarrow> f_le v (Fin a) \<Longrightarrow> v = Fin a"
  by (cases v) simp_all

lemma f_le_trans: "f_le a b \<Longrightarrow> f_le b c \<Longrightarrow> f_le a c"
  by (cases a; cases b; cases c) simp_all

lemma cr_exp_mono: "t1 \<le> t2 \<Longrightarrow> f_le (cr_exp t1) (cr_exp t2)"
  by (simp add: cr_exp_def rnd_mono)

lemma cr_exp_nonneg: "f_le (Fin 0) (cr_exp t)"
  using rnd_mono [of 0 "exp t"] by (simp add: cr_exp_def)


lemma divisor_ge_one:
  assumes "\<And>t. f_le (Fin 0) (E t)" "a \<noteq> NaN"
  shows "f_le (Fin 1) (f_add (Fin 1) (f_exp E a))"
  by (rule one_le_divisor [OF f_exp_nonneg [OF assms]])

subsection \<open>The expression as a whole\<close>

lemma float_monotone:
  assumes mono: "\<And>t1 t2. t1 \<le> t2 \<Longrightarrow> f_le (E t1) (E t2)"
    and nonneg: "\<And>t. f_le (Fin 0) (E t)"
    and s: "0 < s" and lu: "l \<le> u" and w: "f_sub (Fin u) (Fin l) = Fin w" and xy: "x \<le> y"
  shows "f_le (dose_response_f64 E (Fin x) (Fin l) (Fin u) (Fin s) (Fin c))
              (dose_response_f64 E (Fin y) (Fin l) (Fin u) (Fin s) (Fin c))"
proof -
  let ?a = "\<lambda>x. f_mul (Fin s) (f_sub (Fin c) (Fin x))"
  let ?d = "\<lambda>x. f_add (Fin 1) (f_exp E (?a x))"
  have "f_le (rnd 0) (rnd (u - l))" using lu by (intro rnd_mono) simp
  then have w0: "0 \<le> w" using w by (simp add: f_sub_def)
  have a: "f_le (?a y) (?a x)" using s sub_antitone [OF xy] by (rule mul_pos_mono)
  have d: "f_le (?d y) (?d x)" by (rule f_add_left_mono [OF f_exp_mono [OF mono nonneg a]])
  have d1: "f_le (Fin 1) (?d y)"
    using f_le_not_nan [OF a] by (intro divisor_ge_one nonneg) simp
  have "f_le (f_div (Fin w) (?d x)) (f_div (Fin w) (?d y))"
    by (rule div_antitone [OF w0 d1 d])
  then show ?thesis unfolding dose_response_f64_def w by (rule f_add_left_mono)
qed

lemma float_bounds:
  assumes nonneg: "\<And>t. f_le (Fin 0) (E t)"
    and l: "rnd l = Fin l" and lu: "l \<le> u" and w: "f_sub (Fin u) (Fin l) = Fin w"
    and a: "f_mul (Fin s) (f_sub (Fin c) (Fin x)) \<noteq> NaN"
  shows "f_le (Fin l) (dose_response_f64 E (Fin x) (Fin l) (Fin u) (Fin s) (Fin c))"
    and "f_le (dose_response_f64 E (Fin x) (Fin l) (Fin u) (Fin s) (Fin c))
              (f_add (Fin l) (f_div (Fin w) (Fin 1)))"
proof -
  let ?d = "f_add (Fin 1) (f_exp E (f_mul (Fin s) (f_sub (Fin c) (Fin x))))"
  have "f_le (rnd 0) (rnd (u - l))" using lu by (intro rnd_mono) simp
  then have w0: "0 \<le> w" using w by (simp add: f_sub_def)
  have d1: "f_le (Fin 1) ?d" by (rule divisor_ge_one [OF nonneg a])
  have "f_le (f_add (Fin l) (Fin 0)) (f_add (Fin l) (f_div (Fin w) ?d))"
    by (rule f_add_left_mono [OF div_nonneg [OF w0 d1]])
  then show "f_le (Fin l) (dose_response_f64 E (Fin x) (Fin l) (Fin u) (Fin s) (Fin c))"
    unfolding dose_response_f64_def w by (simp add: l)
  show "f_le (dose_response_f64 E (Fin x) (Fin l) (Fin u) (Fin s) (Fin c))
              (f_add (Fin l) (f_div (Fin w) (Fin 1)))"
    unfolding dose_response_f64_def w by (rule f_add_left_mono [OF div_le_top [OF w0 d1]])
qed

lemma float_flat:
  assumes nonneg: "\<And>t. f_le (Fin 0) (E t)"
    and l: "rnd l = Fin l"
    and a: "f_mul (Fin s) (f_sub (Fin c) (Fin x)) \<noteq> NaN"
  shows "dose_response_f64 E (Fin x) (Fin l) (Fin l) (Fin s) (Fin c) = Fin l"
proof -
  have w: "f_sub (Fin l) (Fin l) = Fin 0" by (simp add: f_sub_def)
  have "f_le (Fin l) (dose_response_f64 E (Fin x) (Fin l) (Fin l) (Fin s) (Fin c))"
    by (rule float_bounds(1) [OF nonneg l order_refl w a])
  moreover have "f_le (dose_response_f64 E (Fin x) (Fin l) (Fin l) (Fin s) (Fin c))
      (f_add (Fin l) (f_div (Fin 0) (Fin 1)))"
    by (rule float_bounds(2) [OF nonneg l order_refl w a])
  ultimately show ?thesis using l by (simp add: f_le_antisym)
qed


subsection \<open>Concrete values and the plateaus of the three parameter sets\<close>

lemma rnd_between:
  assumes "a \<le> x" "x \<le> b" "rnd a = Fin a" "rnd b = Fin b"
  shows "\<exists>v. rnd x = Fin v \<and> a \<le> v \<and> v \<le> b"
  using rnd_mono [OF assms(1)] rnd_mono [OF assms(2)] assms(3,4)
  by (cases "rnd x") simp_all

lemma rnd_3 [simp]: "rnd 3 = Fin 3"
  using rnd_eval [of 1 3 "3 * 2 ^ 51"] by simp

lemma rnd_6 [simp]: "rnd 6 = Fin 6"
  using rnd_eval [of 2 6 "3 * 2 ^ 51"] by simp

lemma rnd_10 [simp]: "rnd 10 = Fin 10" "rnd (- 10) = Fin (- 10)"
  using rnd_eval [of 3 10 "5 * 2 ^ 50"] rnd_eval [of 3 "- 10" "5 * 2 ^ 50"] by simp_all

lemma rnd_40 [simp]: "rnd 40 = Fin 40" "rnd (- 40) = Fin (- 40)"
  using rnd_eval [of 5 40 "5 * 2 ^ 50"] rnd_eval [of 5 "- 40" "5 * 2 ^ 50"] by simp_all

lemma rnd_2_56: "rnd (2 ^ 56) = Fin (2 ^ 56)"
  using rnd_eval [of 56 "2 ^ 56" "2 ^ 52"] by simp

lemma rnd_2_m56: "rnd (1 / 2 ^ 56) = Fin (1 / 2 ^ 56)"
  using rnd_eval [of "- 56" "1 / 2 ^ 56" "2 ^ 52"] by simp

lemma exp_half: "13 / 8 \<le> exp (1 / 2 :: real)"
  using exp_lower_Taylor_quadratic [of "1 / 2 :: real"] by (simp add: power2_eq_square)

lemma exp_40_lower: "2 ^ 56 \<le> exp (40 :: real)"
proof -
  have "(2::real) ^ 56 \<le> (13 / 8) ^ 80" by (simp add: power_divide)
  also have "\<dots> \<le> exp (1 / 2) ^ 80" using exp_half by (intro power_mono) simp_all
  also have "\<dots> = exp (of_nat 80 * (1 / 2))" by (rule exp_of_nat_mult [symmetric])
  finally show ?thesis by simp
qed

lemma exp_m40_upper: "exp (- 40 :: real) \<le> 1 / 2 ^ 56"
proof -
  have "exp (- 40 :: real) = 1 / exp 40" by (simp add: exp_minus inverse_eq_divide)
  also have "\<dots> \<le> 1 / 2 ^ 56" using exp_40_lower by (intro divide_left_mono) simp_all
  finally show ?thesis .
qed

lemma round_to_one:
  assumes "0 \<le> e" "e \<le> 1 / 2 ^ 56"
  shows "rnd (1 + e) = Fin 1"
proof -
  have "rhe (\<bar>1 + e\<bar> / 2 powi (0 - 52)) = 2 ^ 52"
  proof (rule rhe_near)
    have "\<bar>1 + e\<bar> / 2 powi (0 - 52) = 2 ^ 52 + e * 2 ^ 52" using assms(1) by (simp add: algebra_simps)
    moreover have "e * 2 ^ 52 \<le> 1 / 2 ^ 56 * 2 ^ 52" using assms(2) by (intro mult_right_mono) simp_all
    ultimately show "real_of_int (2 ^ 52) \<le> \<bar>1 + e\<bar> / 2 powi (0 - 52)"
      "\<bar>1 + e\<bar> / 2 powi (0 - 52) < real_of_int (2 ^ 52) + 1 / 2"
      using assms(1) by simp_all
  qed
  then show ?thesis using rnd_eval [of 0 "1 + e" "2 ^ 52"] assms by simp
qed

lemma at_10: "dose_response_f64 cr_exp (Fin 10) (Fin 3) (Fin 6) (Fin 4) (Fin 0) = Fin 6"
proof -
  obtain e where e: "rnd (exp (- 40)) = Fin e" "0 \<le> e" "e \<le> 1 / 2 ^ 56"
    using rnd_between [of 0 "exp (- 40)" "1 / 2 ^ 56"] exp_m40_upper rnd_2_m56 by auto
  show ?thesis
    by (simp add: dose_response_f64_def f_sub_def cr_exp_def e round_to_one [OF e(2,3)])
qed

lemma mul_not_nan: "s \<noteq> 0 \<Longrightarrow> r \<noteq> NaN \<Longrightarrow> f_mul (Fin s) r \<noteq> NaN"
  by (cases r) simp_all



lemma plateau_above:
  assumes s: "0 < s" and l: "rnd l = Fin l" and lu: "l \<le> u"
    and w: "f_sub (Fin u) (Fin l) = Fin w"
    and top: "f_add (Fin l) (f_div (Fin w) (Fin 1)) = Fin T"
    and at: "dose_response_f64 cr_exp (Fin X) (Fin l) (Fin u) (Fin s) (Fin c) = Fin T"
    and z: "X \<le> z"
  shows "dose_response_f64 cr_exp (Fin z) (Fin l) (Fin u) (Fin s) (Fin c) = Fin T"
proof -
  have a: "f_mul (Fin s) (f_sub (Fin c) (Fin z)) \<noteq> NaN" using s by (intro mul_not_nan) simp_all
  have "f_le (dose_response_f64 cr_exp (Fin z) (Fin l) (Fin u) (Fin s) (Fin c)) (Fin T)"
    using float_bounds(2) [OF cr_exp_nonneg l lu w a] top by simp
  moreover have "f_le (Fin T) (dose_response_f64 cr_exp (Fin z) (Fin l) (Fin u) (Fin s) (Fin c))"
    using float_monotone [where E = cr_exp and c = c, OF cr_exp_mono cr_exp_nonneg s lu w z] at by simp
  ultimately show ?thesis by (simp add: f_le_antisym)
qed

lemma plateau_below:
  assumes s: "0 < s" and l: "rnd l = Fin l" and lu: "l \<le> u"
    and w: "f_sub (Fin u) (Fin l) = Fin w"
    and at: "dose_response_f64 cr_exp (Fin X) (Fin l) (Fin u) (Fin s) (Fin c) = Fin l"
    and z: "z \<le> X"
  shows "dose_response_f64 cr_exp (Fin z) (Fin l) (Fin u) (Fin s) (Fin c) = Fin l"
proof -
  have a: "f_mul (Fin s) (f_sub (Fin c) (Fin z)) \<noteq> NaN" using s by (intro mul_not_nan) simp_all
  have "f_le (Fin l) (dose_response_f64 cr_exp (Fin z) (Fin l) (Fin u) (Fin s) (Fin c))"
    by (rule float_bounds(1) [OF cr_exp_nonneg l lu w a])
  moreover have "f_le (dose_response_f64 cr_exp (Fin z) (Fin l) (Fin u) (Fin s) (Fin c)) (Fin l)"
    using float_monotone [where E = cr_exp and c = c, OF cr_exp_mono cr_exp_nonneg s lu w z] at by simp
  ultimately show ?thesis by (simp add: f_le_antisym)
qed

lemma saturated_above:
  assumes arg: "f_mul slope (f_sub c50 x) = Fin t" and t: "t \<le> - 40"
  shows "dose_response_f64 cr_exp x lower upper slope c50
           = f_add lower (f_div (f_sub upper lower) (Fin 1))"
proof -
  have "exp t \<le> exp (- 40)" using t by simp
  then have "exp t \<le> 1 / 2 ^ 56" using exp_m40_upper by linarith
  then obtain e where e: "rnd (exp t) = Fin e" "0 \<le> e" "e \<le> 1 / 2 ^ 56"
    using rnd_between [of 0 "exp t" "1 / 2 ^ 56"] rnd_2_m56 by auto
  show ?thesis
    by (simp add: dose_response_f64_def arg cr_exp_def e round_to_one [OF e(2,3)])
qed

lemma exp_100_upper: "exp (100 :: real) \<le> 2 ^ 160"
proof -
  have "exp (100 :: real) = exp (of_nat 100 * 1)" by simp
  also have "\<dots> = exp 1 ^ 100" by (rule exp_of_nat_mult)
  also have "\<dots> \<le> 3 ^ 100" using exp_le by (intro power_mono) simp_all
  also have "\<dots> \<le> (2::real) ^ 160" by simp
  finally show ?thesis .
qed

lemma round_to_lower:
  assumes l: "rnd l = Fin l" "2 \<le> l" "l < 4" and q: "0 \<le> q" "q \<le> 1 / 2 ^ 53"
  shows "rnd (l + q) = Fin l"
proof -
  have el: "rnd l = Fin (sgn l * (2 powi (1 - 52) * of_int (rhe (\<bar>l\<bar> / 2 powi (1 - 52)))))"
    using l(2,3) by (intro rnd_eval) simp_all
  obtain n where n: "rhe (l * 2 ^ 51) = n" by simp
  have ln: "l * 2 ^ 51 = of_int n"
    using el l n by (simp add: field_simps)
  have "rhe (\<bar>l + q\<bar> / 2 powi (1 - 52)) = n"
  proof (rule rhe_near)
    have "\<bar>l + q\<bar> / 2 powi (1 - 52) = of_int n + q * 2 ^ 51"
      using l(2) q(1) ln by (simp add: algebra_simps)
    moreover have "q * 2 ^ 51 \<le> 1 / 2 ^ 53 * 2 ^ 51" using q(2) by (intro mult_right_mono) simp_all
    ultimately show "real_of_int n \<le> \<bar>l + q\<bar> / 2 powi (1 - 52)"
      "\<bar>l + q\<bar> / 2 powi (1 - 52) < real_of_int n + 1 / 2"
      using q(1) by simp_all
  qed
  moreover have "l + q < 4"
  proof -
    have "real_of_int n < real_of_int (4 * 2 ^ 51)" using ln l(3) by (simp add: field_simps)
    then have "n < 4 * 2 ^ 51" by (simp only: of_int_less_iff)
    then have "n \<le> 4 * 2 ^ 51 - 1" by simp
    then have "real_of_int n \<le> real_of_int (4 * 2 ^ 51 - 1)" by (simp only: of_int_le_iff)
    then have "of_int n \<le> (4 * 2 ^ 51 - 1 :: real)" by simp
    then have "l \<le> 4 - 1 / 2 ^ 51" using ln by (simp add: field_simps)
    then show ?thesis using q(2) by (simp add: field_simps)
  qed
  ultimately have "rnd (l + q) = Fin (sgn (l + q) * (2 powi (1 - 52) * of_int n))"
    using l(2) q(1) by (intro rnd_eval) simp_all
  then show ?thesis using ln l(2) q(1) by (simp add: field_simps)
qed

lemma saturated_below:
  assumes arg: "f_mul slope (f_sub c50 x) = Fin t" and t: "40 \<le> t" "t \<le> 100"
    and w: "f_sub (Fin u) (Fin l) = Fin w" "0 \<le> w" "w \<le> 8"
    and l: "rnd l = Fin l" "2 \<le> l" "l < 4"
  shows "dose_response_f64 cr_exp x (Fin l) (Fin u) slope c50 = Fin l"
proof -
  have "exp 40 \<le> exp t" "exp t \<le> exp 100" using t by simp_all
  then have "2 ^ 56 \<le> exp t" "exp t \<le> 2 ^ 160" using exp_40_lower exp_100_upper by linarith+
  then obtain v where v: "rnd (exp t) = Fin v" "2 ^ 56 \<le> v" "v \<le> 2 ^ 160"
    using rnd_between [of "2 ^ 56" "exp t" "2 ^ 160"] rnd_2_56
      rnd_eval [of 160 "2 ^ 160" "2 ^ 52"] by auto
  obtain d where d: "rnd (1 + v) = Fin d" "2 ^ 56 \<le> d"
    using rnd_between [of "2 ^ 56" "1 + v" "2 ^ 161"] v rnd_2_56
      rnd_eval [of 161 "2 ^ 161" "2 ^ 52"] by auto
  have d0: "d \<noteq> 0" using d(2) by auto
  have "w / d \<le> 8 / 2 ^ 56" using d(2) w(2,3) by (intro frac_le) simp_all
  then have "w / d \<le> 1 / 2 ^ 53" by simp
  moreover have "0 \<le> w / d" using d(2) w(2) by simp
  ultimately obtain q where q: "rnd (w / d) = Fin q" "0 \<le> q" "q \<le> 1 / 2 ^ 53"
    using rnd_between [of 0 "w / d" "1 / 2 ^ 53"] rnd_eval [of "- 53" "1 / 2 ^ 53" "2 ^ 52"] by auto
  show ?thesis
    by (simp add: dose_response_f64_def arg cr_exp_def v d d0 w(1) q round_to_lower [OF l q(2,3)])
qed

lemma first_set_plateaus:
  shows "10 \<le> z \<Longrightarrow> dose_response_f64 cr_exp (Fin z) (Fin 3) (Fin 6) (Fin 4) (Fin 0) = Fin 6"
    and "z \<le> - 10 \<Longrightarrow> dose_response_f64 cr_exp (Fin z) (Fin 3) (Fin 6) (Fin 4) (Fin 0) = Fin 3"
proof -
  have w: "f_sub (Fin 6) (Fin 3) = Fin 3" by (simp add: f_sub_def)
  have top: "f_add (Fin 3) (f_div (Fin 3) (Fin 1)) = Fin 6" by simp
  have hi: "f_mul (Fin 4) (f_sub (Fin 0) (Fin 10)) = Fin (- 40)" by (simp add: f_sub_def)
  have lo: "f_mul (Fin 4) (f_sub (Fin 0) (Fin (- 10))) = Fin 40" by (simp add: f_sub_def)
  have at_hi: "dose_response_f64 cr_exp (Fin 10) (Fin 3) (Fin 6) (Fin 4) (Fin 0) = Fin 6"
    using saturated_above [OF hi, of "Fin 3" "Fin 6"] w top by simp
  have at_lo: "dose_response_f64 cr_exp (Fin (- 10)) (Fin 3) (Fin 6) (Fin 4) (Fin 0) = Fin 3"
    by (rule saturated_below [OF lo _ _ w _ _ rnd_3]) simp_all
  show "10 \<le> z \<Longrightarrow> dose_response_f64 cr_exp (Fin z) (Fin 3) (Fin 6) (Fin 4) (Fin 0) = Fin 6"
    by (rule plateau_above [OF _ rnd_3 _ w top at_hi]) simp_all
  show "z \<le> - 10 \<Longrightarrow> dose_response_f64 cr_exp (Fin z) (Fin 3) (Fin 6) (Fin 4) (Fin 0) = Fin 3"
    by (rule plateau_below [OF _ rnd_3 _ w at_lo]) simp_all
qed

lemma second_set_plateaus:
  shows "20 \<le> z \<Longrightarrow>
      dose_response_f64 cr_exp (Fin z) (Fin (5 / 2)) (Fin 8) (Fin 3) (Fin (3 / 2)) = Fin 8"
    and "z \<le> - 20 \<Longrightarrow>
      dose_response_f64 cr_exp (Fin z) (Fin (5 / 2)) (Fin 8) (Fin 3) (Fin (3 / 2)) = Fin (5 / 2)"
proof -
  have l: "rnd (5 / 2) = Fin (5 / 2)"
    using rnd_eval [of 1 "5 / 2" "5 * 2 ^ 50"] by simp
  have w: "f_sub (Fin 8) (Fin (5 / 2)) = Fin (11 / 2)"
    using rnd_eval [of 2 "11 / 2" "11 * 2 ^ 49"] by (simp add: f_sub_def)
  have top: "f_add (Fin (5 / 2)) (f_div (Fin (11 / 2)) (Fin 1)) = Fin 8"
    using rnd_eval [of 2 "11 / 2" "11 * 2 ^ 49"] rnd_eval [of 3 8 "2 ^ 52"] by simp
  have hi: "f_mul (Fin 3) (f_sub (Fin (3 / 2)) (Fin 20)) = Fin (- (111 / 2))"
    using rnd_eval [of 4 "- (37 / 2)" "37 * 2 ^ 47"] rnd_eval [of 5 "- (111 / 2)" "111 * 2 ^ 46"]
    by (simp add: f_sub_def)
  have lo: "f_mul (Fin 3) (f_sub (Fin (3 / 2)) (Fin (- 20))) = Fin (129 / 2)"
    using rnd_eval [of 4 "43 / 2" "43 * 2 ^ 47"] rnd_eval [of 6 "129 / 2" "129 * 2 ^ 45"]
    by (simp add: f_sub_def)
  have at_hi: "dose_response_f64 cr_exp (Fin 20) (Fin (5 / 2)) (Fin 8) (Fin 3) (Fin (3 / 2)) = Fin 8"
    using saturated_above [OF hi, of "Fin (5 / 2)" "Fin 8"] w top by simp
  have at_lo: "dose_response_f64 cr_exp (Fin (- 20)) (Fin (5 / 2)) (Fin 8) (Fin 3) (Fin (3 / 2))
      = Fin (5 / 2)"
    by (rule saturated_below [OF lo _ _ w _ _ l]) simp_all
  show "20 \<le> z \<Longrightarrow>
      dose_response_f64 cr_exp (Fin z) (Fin (5 / 2)) (Fin 8) (Fin 3) (Fin (3 / 2)) = Fin 8"
    by (rule plateau_above [OF _ l _ w top at_hi]) simp_all
  show "z \<le> - 20 \<Longrightarrow>
      dose_response_f64 cr_exp (Fin z) (Fin (5 / 2)) (Fin 8) (Fin 3) (Fin (3 / 2)) = Fin (5 / 2)"
    by (rule plateau_below [OF _ l _ w at_lo]) simp_all
qed

lemma third_set_plateaus:
  shows "30 \<le> z \<Longrightarrow>
      dose_response_f64 cr_exp (Fin z) (Fin (3602879701896397 / 2 ^ 50))
        (Fin (7656119366529843 / 2 ^ 51)) (Fin (3 / 2)) (Fin 0) = Fin (7656119366529843 / 2 ^ 51)"
    and "z \<le> - 30 \<Longrightarrow>
      dose_response_f64 cr_exp (Fin z) (Fin (3602879701896397 / 2 ^ 50))
        (Fin (7656119366529843 / 2 ^ 51)) (Fin (3 / 2)) (Fin 0) = Fin (3602879701896397 / 2 ^ 50)"
proof -
  have l: "rnd (3602879701896397 / 2 ^ 50) = Fin (3602879701896397 / 2 ^ 50)"
    using rnd_eval [of 1 "3602879701896397 / 2 ^ 50" 7205759403792794] by simp
  have w: "f_sub (Fin (7656119366529843 / 2 ^ 51)) (Fin (3602879701896397 / 2 ^ 50))
      = Fin (450359962737049 / 2 ^ 51)"
    using rnd_eval [of "- 3" "7656119366529843 / 2 ^ 51 + - (3602879701896397 / 2 ^ 50)"
        7205759403792784]
    by (simp add: f_sub_def)
  have top: "f_add (Fin (3602879701896397 / 2 ^ 50)) (f_div (Fin (450359962737049 / 2 ^ 51)) (Fin 1))
      = Fin (7656119366529843 / 2 ^ 51)"
    using rnd_eval [of "- 3" "450359962737049 / 2 ^ 51" 7205759403792784]
      rnd_eval [of 1 "3602879701896397 / 2 ^ 50 + 450359962737049 / 2 ^ 51" 7656119366529843]
    by simp
  have hi: "f_mul (Fin (3 / 2)) (f_sub (Fin 0) (Fin 30)) = Fin (- 45)"
    using rnd_eval [of 4 "- 30" "15 * 2 ^ 49"] rnd_eval [of 5 "- 45" "45 * 2 ^ 47"]
    by (simp add: f_sub_def)
  have lo: "f_mul (Fin (3 / 2)) (f_sub (Fin 0) (Fin (- 30))) = Fin 45"
    using rnd_eval [of 4 30 "15 * 2 ^ 49"] rnd_eval [of 5 45 "45 * 2 ^ 47"]
    by (simp add: f_sub_def)
  have at_hi: "dose_response_f64 cr_exp (Fin 30) (Fin (3602879701896397 / 2 ^ 50))
        (Fin (7656119366529843 / 2 ^ 51)) (Fin (3 / 2)) (Fin 0) = Fin (7656119366529843 / 2 ^ 51)"
    using saturated_above [OF hi, of "Fin (3602879701896397 / 2 ^ 50)"
        "Fin (7656119366529843 / 2 ^ 51)"] w top by simp
  have at_lo: "dose_response_f64 cr_exp (Fin (- 30)) (Fin (3602879701896397 / 2 ^ 50))
        (Fin (7656119366529843 / 2 ^ 51)) (Fin (3 / 2)) (Fin 0) = Fin (3602879701896397 / 2 ^ 50)"
    by (rule saturated_below [OF lo _ _ w _ _ l]) simp_all
  show "30 \<le> z \<Longrightarrow>
      dose_response_f64 cr_exp (Fin z) (Fin (3602879701896397 / 2 ^ 50))
        (Fin (7656119366529843 / 2 ^ 51)) (Fin (3 / 2)) (Fin 0) = Fin (7656119366529843 / 2 ^ 51)"
    by (rule plateau_above [OF _ l _ w top at_hi]) simp_all
  show "z \<le> - 30 \<Longrightarrow>
      dose_response_f64 cr_exp (Fin z) (Fin (3602879701896397 / 2 ^ 50))
        (Fin (7656119366529843 / 2 ^ 51)) (Fin (3 / 2)) (Fin 0) = Fin (3602879701896397 / 2 ^ 50)"
    by (rule plateau_below [OF _ l _ w at_lo]) simp_all
qed

lemma literals:
  "rnd (32 / 10) = Fin (3602879701896397 / 2 ^ 50)" "rnd (34 / 10) = Fin (7656119366529843 / 2 ^ 51)"
  using rnd_eval [of 1 "32 / 10" 7205759403792794] rnd_eval [of 1 "34 / 10" 7656119366529843]
  by (simp_all add: rhe_def)

subsection \<open>The midpoint, the bounds and the monotonicity\<close>




text \<open>
  C9, as the code has it. For finite float64 plateaus \<open>lower \<le> upper\<close> whose difference
  does not overflow, an exponential that is never negative nor nan, and an exponent
  \<open>slope * (c50 - x)\<close> that is not nan, the float64 evaluation lies between lower and the
  saturation value \<open>lower + (upper - lower) / 1\<close> (the expression with a divisor of
  exactly 1, every operation rounded), both bounds included; and it is lower when
  \<open>lower = upper\<close>.
\<close>

theorem within_plateaus_in_float64:
  assumes "\<And>t. f_le (Fin 0) (E t)"
    and "rnd lower = Fin lower" and "lower \<le> upper"
    and "f_sub (Fin upper) (Fin lower) = Fin w"
    and "f_mul (Fin slope) (f_sub (Fin c50) (Fin x)) \<noteq> NaN"
  shows "f_le (Fin lower) (dose_response_f64 E (Fin x) (Fin lower) (Fin upper) (Fin slope) (Fin c50))
     \<and> f_le (dose_response_f64 E (Fin x) (Fin lower) (Fin upper) (Fin slope) (Fin c50))
           (f_add (Fin lower) (f_div (Fin w) (Fin 1)))
     \<and> (lower = upper \<longrightarrow>
           dose_response_f64 E (Fin x) (Fin lower) (Fin upper) (Fin slope) (Fin c50) = Fin lower)"
proof (intro conjI impI)
  show "f_le (Fin lower) (dose_response_f64 E (Fin x) (Fin lower) (Fin upper) (Fin slope) (Fin c50))"
    using assms by (rule float_bounds(1))
  show "f_le (dose_response_f64 E (Fin x) (Fin lower) (Fin upper) (Fin slope) (Fin c50))
           (f_add (Fin lower) (f_div (Fin w) (Fin 1)))"
    using assms by (rule float_bounds(2))
next
  assume "lower = upper"
  then show "dose_response_f64 E (Fin x) (Fin lower) (Fin upper) (Fin slope) (Fin c50) = Fin lower"
    using float_flat [OF assms(1) assms(2), of slope c50 x] assms(5) by simp
qed

theorem within_plateaus_in_float64_witness:
  "rnd 3 = Fin 3 \<and> (3::real) \<le> 6 \<and> f_sub (Fin 6) (Fin 3) = Fin 3
   \<and> f_mul (Fin 4) (f_sub (Fin 0) (Fin 1)) \<noteq> NaN
   \<and> f_le (Fin 3) (dose_response_f64 cr_exp (Fin 1) (Fin 3) (Fin 6) (Fin 4) (Fin 0))
   \<and> f_le (dose_response_f64 cr_exp (Fin 1) (Fin 3) (Fin 6) (Fin 4) (Fin 0)) (Fin 6)
   \<and> f_sub (Fin 3) (Fin 3) = Fin 0
   \<and> dose_response_f64 cr_exp (Fin 1) (Fin 3) (Fin 3) (Fin 4) (Fin 0) = Fin 3"
proof -
  have w: "f_sub (Fin 6) (Fin 3) = Fin 3" and w0: "f_sub (Fin 3) (Fin 3) = Fin 0"
    by (simp_all add: f_sub_def)
  have a: "f_mul (Fin 4) (f_sub (Fin 0) (Fin 1)) \<noteq> NaN"
    by (intro mul_not_nan) simp_all
  have le: "(3::real) \<le> 6" "(3::real) \<le> 3" by simp_all
  show ?thesis
    using within_plateaus_in_float64 [of cr_exp 3 6 3 4 0 1, OF cr_exp_nonneg rnd_3 le(1) w a]
      within_plateaus_in_float64 [of cr_exp 3 3 0 4 0 1, OF cr_exp_nonneg rnd_3 le(2) w0 a]
      w w0 a
    by simp
qed

text \<open>
  C9 as stated, the value lying strictly below upper, fails in float64. With the first
  synthetic parameter set (3, 6, 4, 0) the evaluation at \<open>x = 10\<close> is exactly 6, the upper
  plateau: \<^verbatim>\<open>exp(-40)\<close> is below 2^-53 and \<^verbatim>\<open>1 + exp(-40)\<close> rounds to 1. The saturation
  value can even pass upper by a rounding step: with lower -2 and upper 1 + 3 / 2^52 the
  evaluation at \<open>x = 10\<close> is 1 + 4 / 2^52.
\<close>

theorem plateau_attained:
  "dose_response_f64 cr_exp (Fin 10) (Fin 3) (Fin 6) (Fin 4) (Fin 0) = Fin 6
   \<and> dose_response_f64 cr_exp (Fin 10) (Fin (- 2)) (Fin (1 + 3 / 2 ^ 52)) (Fin 4) (Fin 0)
        = Fin (1 + 1 / 2 ^ 50)
   \<and> (1 + 3 / 2 ^ 52 :: real) < 1 + 1 / 2 ^ 50"
proof -
  obtain e where e: "rnd (exp (- 40)) = Fin e" "0 \<le> e" "e \<le> 1 / 2 ^ 56"
    using rnd_between [of 0 "exp (- 40)" "1 / 2 ^ 56"] exp_m40_upper rnd_2_m56 by auto
  have "dose_response_f64 cr_exp (Fin 10) (Fin (- 2)) (Fin (1 + 3 / 2 ^ 52)) (Fin 4) (Fin 0)
        = Fin (1 + 1 / 2 ^ 50)"
    using rnd_eval [of 1 "1 + 3 / 2 ^ 52 + 2" "3 * 2 ^ 51 + 2"]
      rnd_eval [of 1 "3 + 1 / 2 ^ 50" "3 * 2 ^ 51 + 2"]
      rnd_eval [of 0 "- 2 + (3 + 1 / 2 ^ 50)" "2 ^ 52 + 4"]
    by (simp add: dose_response_f64_def f_sub_def cr_exp_def e round_to_one [OF e(2,3)] rhe_def)
  then show ?thesis by (simp add: at_10)
qed

text \<open>
  C2, as the code has it. For a positive slope, finite float64 plateaus \<open>lower < upper\<close>
  whose difference does not overflow, and an exponential that is monotone and never negative
  nor nan, the float64 evaluation is non-decreasing in x. It is not strictly increasing: it
  sits on its plateaus. With the three synthetic parameter sets (3, 6, 4, 0),
  (2.5, 8, 3, 1.5) and (3.2, 3.4, 1.5, 0) and the correctly rounded exponential it is
  exactly lower for every x at most -10, -20 and -30, and exactly upper for every x at
  least 10, 20 and 30.
\<close>

theorem nondecreasing_in_float64:
  assumes "\<And>t1 t2. t1 \<le> t2 \<Longrightarrow> f_le (E t1) (E t2)"
    and "\<And>t. f_le (Fin 0) (E t)"
    and "0 < slope" and "lower < upper"
    and "f_sub (Fin upper) (Fin lower) = Fin w"
  shows "(x \<le> y \<longrightarrow>
            f_le (dose_response_f64 E (Fin x) (Fin lower) (Fin upper) (Fin slope) (Fin c50))
                 (dose_response_f64 E (Fin y) (Fin lower) (Fin upper) (Fin slope) (Fin c50)))
     \<and> (\<forall>z\<ge>10. dose_response_f64 cr_exp (Fin z) (Fin 3) (Fin 6) (Fin 4) (Fin 0) = Fin 6)
     \<and> (\<forall>z\<le>- 10. dose_response_f64 cr_exp (Fin z) (Fin 3) (Fin 6) (Fin 4) (Fin 0) = Fin 3)
     \<and> (\<forall>z\<ge>20. dose_response_f64 cr_exp (Fin z) (Fin (5 / 2)) (Fin 8) (Fin 3) (Fin (3 / 2))
            = Fin 8)
     \<and> (\<forall>z\<le>- 20. dose_response_f64 cr_exp (Fin z) (Fin (5 / 2)) (Fin 8) (Fin 3) (Fin (3 / 2))
            = Fin (5 / 2))
     \<and> rnd (32 / 10) = Fin (3602879701896397 / 2 ^ 50)
     \<and> rnd (34 / 10) = Fin (7656119366529843 / 2 ^ 51)
     \<and> (\<forall>z\<ge>30. dose_response_f64 cr_exp (Fin z) (Fin (3602879701896397 / 2 ^ 50))
            (Fin (7656119366529843 / 2 ^ 51)) (Fin (3 / 2)) (Fin 0)
            = Fin (7656119366529843 / 2 ^ 51))
     \<and> (\<forall>z\<le>- 30. dose_response_f64 cr_exp (Fin z) (Fin (3602879701896397 / 2 ^ 50))
            (Fin (7656119366529843 / 2 ^ 51)) (Fin (3 / 2)) (Fin 0)
            = Fin (3602879701896397 / 2 ^ 50))"
proof -
  have "f_le (dose_response_f64 E (Fin x) (Fin lower) (Fin upper) (Fin slope) (Fin c50))
             (dose_response_f64 E (Fin y) (Fin lower) (Fin upper) (Fin slope) (Fin c50))"
    if "x \<le> y"
    using assms(1-3) less_imp_le [OF assms(4)] assms(5) that by (rule float_monotone)
  then show ?thesis
    using first_set_plateaus second_set_plateaus third_set_plateaus literals by blast
qed

theorem nondecreasing_in_float64_witness:
  "(0::real) < 4 \<and> (3::real) < 6 \<and> f_sub (Fin 6) (Fin 3) = Fin 3 \<and> (1::real) \<le> 2
   \<and> f_le (dose_response_f64 cr_exp (Fin 1) (Fin 3) (Fin 6) (Fin 4) (Fin 0))
           (dose_response_f64 cr_exp (Fin 2) (Fin 3) (Fin 6) (Fin 4) (Fin 0))
   \<and> (10::real) \<le> 12
   \<and> dose_response_f64 cr_exp (Fin 12) (Fin 3) (Fin 6) (Fin 4) (Fin 0) = Fin 6
   \<and> (- 12::real) \<le> - 10
   \<and> dose_response_f64 cr_exp (Fin (- 12)) (Fin 3) (Fin 6) (Fin 4) (Fin 0) = Fin 3"
proof -
  have s: "(0::real) < 4" and lu: "(3::real) < 6" by simp_all
  have w: "f_sub (Fin 6) (Fin 3) = Fin 3" by (simp add: f_sub_def)
  show ?thesis
    using nondecreasing_in_float64 [of cr_exp 4 3 6 3 1 2 0, OF cr_exp_mono cr_exp_nonneg s lu w] w
    by simp
qed

text \<open>
  C2 as stated, the curve strictly increasing in x, fails in float64: with the first
  synthetic parameter set the evaluation is 6 at \<open>x = 10\<close> and again 6 at \<open>x = 11\<close>.
\<close>

theorem not_strictly_increasing:
  "(10::real) < 11
   \<and> dose_response_f64 cr_exp (Fin 10) (Fin 3) (Fin 6) (Fin 4) (Fin 0) = Fin 6
   \<and> dose_response_f64 cr_exp (Fin 11) (Fin 3) (Fin 6) (Fin 4) (Fin 0) = Fin 6
   \<and> f_le (dose_response_f64 cr_exp (Fin 11) (Fin 3) (Fin 6) (Fin 4) (Fin 0))
          (dose_response_f64 cr_exp (Fin 10) (Fin 3) (Fin 6) (Fin 4) (Fin 0))"
  using first_set_plateaus(1) [of 10] first_set_plateaus(1) [of 11] by simp

section \<open>Properties of the notebook's data\<close>

lemma upt10: "[0..<10] = [0, 1, 2, 3, 4, 5, 6, 7, 8, 9::nat]"
  by (simp add: upt_rec)

lemma even_points_list:
  "even_points =
     [- 2, - (14 / 9), - (10 / 9), - (2 / 3), - (2 / 9), 2 / 9, 2 / 3, 10 / 9, 14 / 9, 2]"
  by (simp add: even_points_def upt10)

lemma length_even_points: "length even_points = 10"
  by (simp add: even_points_def)

lemma linspace_grid: "linspace (- 2) 2 10 = \<lparr>shape = [10], data = even_points\<rparr>"
  by (simp add: linspace_def Let_def even_points_list upt10)

lemma replicate5: "replicate 5 x = [x, x, x, x, x]"
  by (simp add: numeral_eq_Suc)

lemma grid_eq: "grid = Some grid_array"
  by (simp add: grid_def vstack_def concatenate_def atleast_2d_def linspace_grid replicate5
      grid_array_def)

lemma grid_array_length: "length (data grid_array) = 50"
  by (simp add: grid_array_def replicate5 length_even_points)

lemma wf_grid_array: "wf_array grid_array"
  by (simp add: wf_array_def grid_array_length) (simp add: grid_array_def)

lemma responses_Some:
  assumes "wf_array a1" "wf_array a2" "wf_array a3"
  shows "\<exists>b1 b2 b3. responses g a1 a2 a3 = Some (b1, b2, b3)
     \<and> shape b1 = shape a1 \<and> length (data b1) = length (data a1)
     \<and> shape b2 = shape a2 \<and> length (data b2) = length (data a2)
     \<and> shape b3 = shape a3 \<and> length (data b3) = length (data a3)"
  using assms
  by (simp add: responses_def dose_response_closed_form wf_array_def noise_def Let_def arr_add_def)

lemma frame_value:
  assumes "length (data b1) = length (data a1)" "length (data b2) = length (data a2)"
    "length (data b3) = length (data a3)"
  shows "frame a1 a2 a3 b1 b2 b3 =
    Some (three_cols (data a1 @ data a2 @ data a3) (data b1 @ data b2 @ data b3)
      (replicate (length (data a1)) 0 @ replicate (length (data a2)) 1
         @ replicate (length (data a3)) 2))"
  using assms
  by (simp add: frame_def concatenate_def flatten_def len_def DataFrame_def same_length_def
      three_cols_def)

lemma notebook_value:
  "\<exists>b1 b2 b3. length (data b1) = 50 \<and> length (data b2) = 50 \<and> length (data b3) = 50
     \<and> notebook g = Some \<lparr>x1 = grid_array, x2 = grid_array, x3 = grid_array,
          y1 = b1, y2 = b2, y3 = b3,
          df = three_cols (data grid_array @ data grid_array @ data grid_array)
                 (data b1 @ data b2 @ data b3)
                 (replicate 50 0 @ replicate 50 1 @ replicate 50 2),
          calls = the_calls grid_array b1 b2 b3\<rparr>"
proof -
  obtain b1 b2 b3 where r: "responses g grid_array grid_array grid_array = Some (b1, b2, b3)"
    and l: "length (data b1) = 50" "length (data b2) = 50" "length (data b3) = 50"
    using responses_Some [OF wf_grid_array wf_grid_array wf_grid_array, of g]
    by (auto simp: grid_array_length)
  have f: "frame grid_array grid_array grid_array b1 b2 b3 =
      Some (three_cols (data grid_array @ data grid_array @ data grid_array)
                 (data b1 @ data b2 @ data b3)
                 (replicate 50 0 @ replicate 50 1 @ replicate 50 2))"
    using frame_value [of b1 grid_array b2 grid_array b3 grid_array] l
    by (simp add: grid_array_length)
  have "notebook g = Some \<lparr>x1 = grid_array, x2 = grid_array, x3 = grid_array,
          y1 = b1, y2 = b2, y3 = b3,
          df = three_cols (data grid_array @ data grid_array @ data grid_array)
                 (data b1 @ data b2 @ data b3)
                 (replicate 50 0 @ replicate 50 1 @ replicate 50 2),
          calls = the_calls grid_array b1 b2 b3\<rparr>"
    by (simp add: notebook_def grid_eq r f the_calls_def)
  with l show ?thesis by blast
qed

lemma filter_rows_segment:
  assumes "\<And>i. i \<in> set seg \<Longrightarrow> M ! i = j"
  shows "filter (\<lambda>r. map_of r ''molecule'' = Some (I k))
           (map (\<lambda>i. [(''concentration'', F (C ! i)), (''response'', F (R ! i)),
                      (''molecule'', I (M ! i))]) seg)
         = (if k = j then map (row3 C R k) seg else [])"
  using assms by (induction seg) (auto simp: row3_def)

lemma upt_three: "[0..<n + n + n] = [0..<n] @ [n..<n + n] @ [n + n..<n + n + n]"
  by (metis add.assoc le_add1 upt_add_eq_append zero_le)

lemma upt_shift: "[m..<m + n] = map (\<lambda>i. i + m) [0..<n]"
  by (simp add: map_add_upt add.commute)

lemma rows_of_molecule_three:
  fixes c1 c2 c3 r1 r2 r3 :: "real list"
  assumes c: "length c1 = n" "length c2 = n" "length c3 = n"
  defines "C \<equiv> c1 @ c2 @ c3" and "R \<equiv> r1 @ r2 @ r3"
    and "M \<equiv> replicate n 0 @ replicate n 1 @ replicate n (2::int)"
  shows "rows_of_molecule (three_cols C R M) k =
      (if k = 0 then map (row3 C R k) [0..<n] else [])
    @ (if k = 1 then map (row3 C R k) [n..<n + n] else [])
    @ (if k = 2 then map (row3 C R k) [n + n..<n + n + n] else [])"
proof -
  have len: "nrows (three_cols C R M) = n + n + n"
    using c by (simp add: nrows_def three_cols_def C_def)
  have m0: "\<And>i. i \<in> set [0..<n] \<Longrightarrow> M ! i = 0"
    by (simp add: M_def nth_append)
  have m1: "\<And>i. i \<in> set [n..<n + n] \<Longrightarrow> M ! i = 1"
    by (auto simp add: M_def nth_append)
  have m2: "\<And>i. i \<in> set [n + n..<n + n + n] \<Longrightarrow> M ! i = 2"
    by (auto simp add: M_def nth_append)
  let ?P = "\<lambda>r. map_of r ''molecule'' = Some (I k)"
  let ?row = "\<lambda>i. [(''concentration'', F (C ! i)), (''response'', F (R ! i)),
                    (''molecule'', I (M ! i))]"
  have "rows_of_molecule (three_cols C R M) k =
      filter ?P (map ?row [0..<n]) @ filter ?P (map ?row [n..<n + n])
      @ filter ?P (map ?row [n + n..<n + n + n])"
    unfolding rows_of_molecule_def len upt_three by (simp add: three_cols_def)
  also have "\<dots> = (if k = 0 then map (row3 C R k) [0..<n] else [])
    @ (if k = 1 then map (row3 C R k) [n..<n + n] else [])
    @ (if k = 2 then map (row3 C R k) [n + n..<n + n + n] else [])"
    by (simp only: filter_rows_segment [OF m0] filter_rows_segment [OF m1]
        filter_rows_segment [OF m2])
  finally show ?thesis .
qed

text \<open>Rows of each molecule, with the positions counted inside the molecule.\<close>

lemma rows_by_molecule:
  fixes c1 c2 c3 r1 r2 r3 :: "real list"
  assumes c: "length c1 = n" "length c2 = n" "length c3 = n"
    and r: "length r1 = n" "length r2 = n" "length r3 = n"
  defines "fr \<equiv> three_cols (c1 @ c2 @ c3) (r1 @ r2 @ r3)
     (replicate n 0 @ replicate n 1 @ replicate n 2)"
  shows "rows_of_molecule fr 0 = map (row3 c1 r1 0) [0..<n]"
    and "rows_of_molecule fr 1 = map (row3 c2 r2 1) [0..<n]"
    and "rows_of_molecule fr 2 = map (row3 c3 r3 2) [0..<n]"
proof -
  note split = rows_of_molecule_three [OF c, of r1 r2 r3]
  show "rows_of_molecule fr 0 = map (row3 c1 r1 0) [0..<n]"
    unfolding fr_def split using c r by (simp add: row3_def nth_append)
  have "map (row3 (c1 @ c2 @ c3) (r1 @ r2 @ r3) 1) [n..<n + n] = map (row3 c2 r2 1) [0..<n]"
    unfolding upt_shift [of n n] using c r by (simp add: row3_def nth_append)
  then show "rows_of_molecule fr 1 = map (row3 c2 r2 1) [0..<n]"
    unfolding fr_def split by simp
  have "map (row3 (c1 @ c2 @ c3) (r1 @ r2 @ r3) 2) [n + n..<n + n + n] = map (row3 c3 r3 2) [0..<n]"
    unfolding upt_shift [of "n + n" n] using c r by (simp add: row3_def nth_append)
  then show "rows_of_molecule fr 2 = map (row3 c3 r3 2) [0..<n]"
    unfolding fr_def split by simp
qed

lemma chop_replicate:
  assumes "length xs = n"
  shows "chop m n (concat (replicate m xs)) = replicate m xs"
  using assms by (induction m) simp_all

lemma rows_grid_array: "rows grid_array = replicate 5 even_points"
  by (simp add: rows_def grid_array_def chop_replicate [OF length_even_points])

lemma even_points_range: "list_all (\<lambda>c. - 2 \<le> c \<and> c \<le> 2) even_points"
  by (simp add: even_points_list)

lemma list_all_concat_replicate:
  assumes "list_all P xs"
  shows "list_all P (concat (replicate m xs))"
  using assms by (induction m) simp_all

lemma grid_array_range: "list_all (\<lambda>c. - 2 \<le> c \<and> c \<le> 2) (data grid_array)"
  using list_all_concat_replicate [OF even_points_range] by (simp add: grid_array_def)

lemma concentrations_of_rows:
  assumes "length c = n"
  shows "map (\<lambda>r. map_of r ''concentration'') (map (row3 c r k) [0..<n]) = map (\<lambda>v. Some (F v)) c"
proof -
  have "map (\<lambda>r. map_of r ''concentration'') (map (row3 c r k) [0..<n])
      = map (\<lambda>v. Some (F v)) (map ((!) c) [0..<length c])"
    using assms by (simp add: row3_def o_def)
  then show ?thesis by (simp only: map_nth)
qed

text \<open>
  C6. The data set covers exactly three molecules: the frame has 150 rows, its molecule
  column takes exactly the values 0, 1 and 2, each molecule has exactly 50 rows, and row i of
  molecule k holds the i-th flattened concentration of grid \<open>x\<^sub>k\<^sub>+\<^sub>1\<close> and the i-th flattened
  response of \<open>y\<^sub>k\<^sub>+\<^sub>1\<close>, whatever the noise drawn.
\<close>

theorem frame_three_molecules:
  "\<exists>ns. notebook g = Some ns
     \<and> nrows (df ns) = 150
     \<and> (\<exists>ms. getitem (df ns) ''molecule'' = Some (IntCol ms) \<and> set ms = {0, 1, 2})
     \<and> length (rows_of_molecule (df ns) 0) = 50
     \<and> length (rows_of_molecule (df ns) 1) = 50
     \<and> length (rows_of_molecule (df ns) 2) = 50
     \<and> rows_of_molecule (df ns) 0 =
         map (row3 (data (flatten (x1 ns))) (data (flatten (y1 ns))) 0) [0..<50]
     \<and> rows_of_molecule (df ns) 1 =
         map (row3 (data (flatten (x2 ns))) (data (flatten (y2 ns))) 1) [0..<50]
     \<and> rows_of_molecule (df ns) 2 =
         map (row3 (data (flatten (x3 ns))) (data (flatten (y3 ns))) 2) [0..<50]"
proof -
  obtain b1 b2 b3 where l: "length (data b1) = 50" "length (data b2) = 50" "length (data b3) = 50"
    and nb: "notebook g = Some \<lparr>x1 = grid_array, x2 = grid_array, x3 = grid_array,
          y1 = b1, y2 = b2, y3 = b3,
          df = three_cols (data grid_array @ data grid_array @ data grid_array)
                 (data b1 @ data b2 @ data b3)
                 (replicate 50 0 @ replicate 50 1 @ replicate 50 2),
          calls = the_calls grid_array b1 b2 b3\<rparr>"
    using notebook_value [of g] by blast
  note rows = rows_by_molecule [OF grid_array_length grid_array_length grid_array_length l]
  have s: "set (replicate 50 0 @ replicate 50 1 @ replicate 50 (2::int)) = {0, 1, 2}"
    by auto
  have m: "\<exists>ms. getitem (three_cols (data grid_array @ data grid_array @ data grid_array)
                 (data b1 @ data b2 @ data b3)
                 (replicate 50 0 @ replicate 50 1 @ replicate 50 2)) ''molecule'' = Some (IntCol ms)
       \<and> set ms = {0, 1, 2}"
    using s by (simp add: getitem_def three_cols_def)
  have n: "nrows (three_cols (data grid_array @ data grid_array @ data grid_array)
                 (data b1 @ data b2 @ data b3)
                 (replicate 50 0 @ replicate 50 1 @ replicate 50 2)) = 150"
    by (simp add: three_cols_def nrows_def grid_array_length)
  show ?thesis
    unfolding nb using m n by (simp add: rows flatten_def)
qed

text \<open>
  C10. The three molecules are measured on one concentration grid: \<open>x1\<close>, \<open>x2\<close> and
  \<open>x3\<close> are equal 5-by-10 arrays whose every row is \<^verbatim>\<open>linspace(-2, 2, 10)\<close>, the 10 evenly
  spaced points from -2 to 2; every concentration of the frame lies in [-2, 2], and the 50
  concentrations of each molecule are 5 repetitions of those 10 points.
\<close>

theorem identical_grids:
  "\<exists>ns. notebook g = Some ns
     \<and> x1 ns = x2 ns \<and> x2 ns = x3 ns
     \<and> shape (x1 ns) = [5, 10]
     \<and> rows (x1 ns) = replicate 5 (data (linspace (- 2) 2 10))
     \<and> data (linspace (- 2) 2 10) = even_points
     \<and> (\<exists>cs. getitem (df ns) ''concentration'' = Some (FloatCol cs)
           \<and> list_all (\<lambda>c. - 2 \<le> c \<and> c \<le> 2) cs)
     \<and> map (\<lambda>r. map_of r ''concentration'') (rows_of_molecule (df ns) 0)
           = map (\<lambda>v. Some (F v)) (concat (replicate 5 even_points))
     \<and> map (\<lambda>r. map_of r ''concentration'') (rows_of_molecule (df ns) 1)
           = map (\<lambda>v. Some (F v)) (concat (replicate 5 even_points))
     \<and> map (\<lambda>r. map_of r ''concentration'') (rows_of_molecule (df ns) 2)
           = map (\<lambda>v. Some (F v)) (concat (replicate 5 even_points))"
proof -
  obtain b1 b2 b3 where l: "length (data b1) = 50" "length (data b2) = 50" "length (data b3) = 50"
    and nb: "notebook g = Some \<lparr>x1 = grid_array, x2 = grid_array, x3 = grid_array,
          y1 = b1, y2 = b2, y3 = b3,
          df = three_cols (data grid_array @ data grid_array @ data grid_array)
                 (data b1 @ data b2 @ data b3)
                 (replicate 50 0 @ replicate 50 1 @ replicate 50 2),
          calls = the_calls grid_array b1 b2 b3\<rparr>"
    using notebook_value [of g] by blast
  note rows = rows_by_molecule [OF grid_array_length grid_array_length grid_array_length l]
  note conc = concentrations_of_rows [OF grid_array_length]
  have d: "data grid_array = concat (replicate 5 even_points)"
    by (simp add: grid_array_def)
  have c: "\<exists>cs. getitem (three_cols (data grid_array @ data grid_array @ data grid_array)
                 (data b1 @ data b2 @ data b3)
                 (replicate 50 0 @ replicate 50 1 @ replicate 50 2)) ''concentration''
              = Some (FloatCol cs) \<and> list_all (\<lambda>c. - 2 \<le> c \<and> c \<le> 2) cs"
    using grid_array_range by (simp add: getitem_def three_cols_def)
  have sh: "shape grid_array = [5, 10]" by (simp add: grid_array_def)
  let ?fr = "three_cols (data grid_array @ data grid_array @ data grid_array)
                 (data b1 @ data b2 @ data b3)
                 (replicate 50 0 @ replicate 50 1 @ replicate 50 2)"
  have r0: "map (\<lambda>r. map_of r ''concentration'') (rows_of_molecule ?fr 0)
      = map (\<lambda>v. Some (F v)) (concat (replicate 5 even_points))"
    unfolding rows conc by (simp only: d)
  have r1: "map (\<lambda>r. map_of r ''concentration'') (rows_of_molecule ?fr 1)
      = map (\<lambda>v. Some (F v)) (concat (replicate 5 even_points))"
    unfolding rows conc by (simp only: d)
  have r2: "map (\<lambda>r. map_of r ''concentration'') (rows_of_molecule ?fr 2)
      = map (\<lambda>v. Some (F v)) (concat (replicate 5 even_points))"
    unfolding rows conc by (simp only: d)
  show ?thesis
    unfolding nb using c
    by (simp add: r0 r1 r2 rows_grid_array linspace_grid sh)
qed

text \<open>
  C5, as the notebook has it. The frame is not a frame of floats only: the columns
  concentration and response hold floats, the column molecule holds integers (it is built
  from a Python list of ints and indexes the per-molecule parameters of the models).
\<close>

theorem frame_dtypes:
  "\<exists>ns. notebook g = Some ns
     \<and> dtypes (df ns) = [(''concentration'', Float64), (''response'', Float64), (''molecule'', Int64)]"
  using notebook_value [of g] by (auto simp: dtypes_def three_cols_def)

text \<open>
  C5 as stated, every column holding floats, fails on the frame of a run (here with a
  generator that draws 0 only).
\<close>

theorem frame_not_all_float: "map_option (all_float \<circ> df) (notebook zero_rng) = Some False"
  using notebook_value [of zero_rng] by (auto simp: all_float_def three_cols_def)

section \<open>Properties of the models and of the sampling\<close>

text \<open>
  C7. The notebook hands exactly three model specifications to the sampler: its calls of
  \<^verbatim>\<open>pm.sample\<close> are three, for \<open>model\<close>, \<open>model_v2\<close> and \<open>model_v3\<close> in this order,
  each asking for 2000 draws; the three specifications differ.
\<close>

theorem three_sampling_calls:
  "\<exists>ns. notebook g = Some ns
     \<and> filter is_sample (calls ns) = [Sample model 2000, Sample model_v2 2000, Sample model_v3 2000]
     \<and> distinct [model, model_v2, model_v3]"
  using notebook_value [of g]
  by (auto simp: the_calls_def model_def model_v2_def model_v3_def)

text \<open>
  C4, as the notebook has it. The second and the third version place shared group-level
  hyperpriors over each per-molecule parameter: a mean and a standard deviation for lower,
  upper and c50, a standard deviation for slope. The first version has none: its four
  priors, each of one value per molecule, have fixed numbers for parameters:
  \<^verbatim>\<open>Normal(0, 10)\<close> on lower, \<^verbatim>\<open>Normal(10, 10)\<close> on upper, \<^verbatim>\<open>Normal(0, 10)\<close> on c50 and
  \<^verbatim>\<open>HalfNormal(10)\<close> on slope.
\<close>

theorem hyperpriors_from_v2:
  "list_all (\<lambda>p. partially_pooled model_v2 p \<and> partially_pooled model_v3 p
       \<and> \<not> partially_pooled model p \<and> hyperpriors model p = []) curve_parameters
   \<and> map (hyperpriors model_v2) curve_parameters =
       [[''lower_mu'', ''lower_sd''], [''upper_mu'', ''upper_sd''], [''c50_mu'', ''c50_sd''], [''slope_sd'']]
   \<and> map (hyperpriors model_v3) curve_parameters =
       [[''lower_mu'', ''lower_sd''], [''upper_mu'', ''upper_sd''], [''c50_mu'', ''c50_sd''], [''slope_sd'']]
   \<and> map (\<lambda>p. map_option rv_dist (lookup_rv model p)) curve_parameters =
       [Some (Normal (Num 0) (Num 10)), Some (Normal (Num 10) (Num 10)),
        Some (Normal (Num 0) (Num 10)), Some (HalfNormal (Num 10))]
   \<and> map (\<lambda>p. map_option rv_shape (lookup_rv model p)) curve_parameters =
       [Some [3], Some [3], Some [3], Some [3]]"
  by (simp add: curve_parameters_def partially_pooled_def hyperpriors_def group_level_def lookup_rv_def
      model_def model_v2_def model_v3_def sd_def like_def)

text \<open>
  C4 as stated, partial pooling in every one of the three versions, fails on the first:
  its prior on lower is \<^verbatim>\<open>Normal(mu=0, sd=10)\<close>.
\<close>

theorem first_model_unpooled: "\<not> partially_pooled model ''lower''"
  by (simp add: partially_pooled_def hyperpriors_def lookup_rv_def model_def group_level_def)

end
